theory Spec2Isabelle
  imports Complex_Main "HOL-Library.Word" "HOL-Library.Sublist"
begin

section \<open>The attrition-risk scoring handler of \<^verbatim>\<open>src/pages/api/score.ts\<close>\<close>

text \<open>
  The handler computes six risk factors from a posted profile, combines them with a
  weight vector into a score and a tier, asks an external generation service for a
  narrative and recommendations, stores the record and answers the caller.

  Conventions of the embedding.
  \<^item> A JavaScript \<^verbatim>\<open>number\<close> is an IEEE 754 binary64 value (\<open>number\<close>): a finite value, an
    infinity or \<^verbatim>\<open>NaN\<close>, and every arithmetic operation rounds its exact result to the
    nearest such value. A number-typed field of the payload holds a finite value.
  \<^item> A JavaScript string is the list of its UTF-16 code units (\<open>js_string\<close>); \<open>lit\<close>
    turns an ASCII literal into one.
  \<^item> \<^verbatim>\<open>undefined\<close> and \<^verbatim>\<open>null\<close> of an optional field are \<open>None\<close>.
  \<^item> What the host and the external services return is an input of the model: the
    built-ins \<^verbatim>\<open>JSON.parse\<close> and the conversions between numbers and other values are
    parameters (\<open>host\<close>), the results of the awaited calls are the fields of \<open>env\<close>.
\<close>

subsection \<open>Strings\<close>

type_synonym js_string = "16 word list"

definition lit :: "string \<Rightarrow> js_string" where
  "lit s = map (\<lambda>c. of_nat (of_char c)) s"

subsection \<open>Numbers\<close>

text \<open>
  A binary64 value. The two zeros are one value, \<open>Fin 0\<close>: the handler divides by the
  literal 5 only, and a zero prints and serialises without its sign. \<open>Fin\<close> takes any real,
  so that a literal or an input is written as it is; every operation rounds its result
  (\<open>fl\<close>), and what holds for every real operand holds for every binary64 one.
\<close>

datatype number = Fin real | PInf | NInf | NaN

text \<open>Rounding to an integer, a tie going to the even one.\<close>

definition round_half_even :: "real \<Rightarrow> int" where
  "round_half_even y =
     (let f = \<lfloor>y\<rfloor>; d = y - of_int f
      in if d < 1 / 2 then f else if 1 / 2 < d then f + 1 else if even f then f else f + 1)"

text \<open>
  The binary64 values with exponent \<open>e\<close> are the multiples of \<open>2 powi (e - 52)\<close> of
  magnitude from \<open>2 powi e\<close> up to \<open>2 powi (e + 1)\<close>; below the exponent \<open>-1022\<close> the spacing
  stays that of \<open>-1022\<close> (the subnormal values). A real is rounded to the nearest
  multiple of the spacing at its own exponent, a tie going to the even multiple, and the
  result is an infinity when it lies beyond the largest finite value.
\<close>

definition exponent :: "real \<Rightarrow> int" where
  "exponent x = max \<lfloor>log 2 \<bar>x\<bar>\<rfloor> (- 1022)"

definition quantum :: "real \<Rightarrow> real" where
  "quantum x = 2 powi (exponent x - 52)"

definition round_to_double :: "real \<Rightarrow> real" where
  "round_to_double x =
     (if x = 0 then 0 else of_int (round_half_even (x / quantum x)) * quantum x)"

definition max_double :: real where
  "max_double = (2 - 2 powi (- 52)) * 2 powi 1023"

definition fl :: "real \<Rightarrow> number" where
  "fl x =
     (let r = round_to_double x
      in if max_double < r then PInf else if r < - max_double then NInf else Fin r)"

text \<open>The sign of a number, and the infinity (or \<^verbatim>\<open>NaN\<close>) of a sign.\<close>

fun sign_of :: "number \<Rightarrow> real" where
  "sign_of (Fin a) = sgn a"
| "sign_of PInf = 1"
| "sign_of NInf = - 1"
| "sign_of NaN = 0"

definition signed_inf :: "real \<Rightarrow> number" where
  "signed_inf s = (if s = 0 then NaN else if 0 < s then PInf else NInf)"

text \<open>\<^verbatim>\<open>x + y\<close>, \<^verbatim>\<open>-x\<close>, \<^verbatim>\<open>x - y\<close>, \<^verbatim>\<open>x * y\<close> and \<^verbatim>\<open>x / y\<close>. In a division by zero the zero
  counts as positive.\<close>

fun fadd :: "number \<Rightarrow> number \<Rightarrow> number" where
  "fadd (Fin a) (Fin b) = fl (a + b)"
| "fadd NaN y = NaN"
| "fadd x NaN = NaN"
| "fadd PInf NInf = NaN"
| "fadd NInf PInf = NaN"
| "fadd PInf y = PInf"
| "fadd x PInf = PInf"
| "fadd NInf y = NInf"
| "fadd x NInf = NInf"

fun fneg :: "number \<Rightarrow> number" where
  "fneg (Fin a) = Fin (- a)"
| "fneg PInf = NInf"
| "fneg NInf = PInf"
| "fneg NaN = NaN"

definition fsub :: "number \<Rightarrow> number \<Rightarrow> number" where
  "fsub x y = fadd x (fneg y)"

fun fmul :: "number \<Rightarrow> number \<Rightarrow> number" where
  "fmul (Fin a) (Fin b) = fl (a * b)"
| "fmul NaN y = NaN"
| "fmul x NaN = NaN"
| "fmul x y = signed_inf (sign_of x * sign_of y)"

fun fdiv :: "number \<Rightarrow> number \<Rightarrow> number" where
  "fdiv (Fin a) (Fin b) = (if b = 0 then signed_inf a else fl (a / b))"
| "fdiv NaN y = NaN"
| "fdiv x NaN = NaN"
| "fdiv (Fin a) y = Fin 0"
| "fdiv x (Fin b) = signed_inf (sign_of x * (if b < 0 then - 1 else 1))"
| "fdiv x y = NaN"

text \<open>\<^verbatim>\<open>x <= y\<close>: false when either side is \<^verbatim>\<open>NaN\<close>.\<close>

fun num_le :: "number \<Rightarrow> number \<Rightarrow> bool" where
  "num_le (Fin a) (Fin b) = (a \<le> b)"
| "num_le NaN y = False"
| "num_le x NaN = False"
| "num_le NInf y = True"
| "num_le x PInf = True"
| "num_le x y = False"

text \<open>\<^verbatim>\<open>Math.max\<close> and \<^verbatim>\<open>Math.min\<close> of two numbers: \<^verbatim>\<open>NaN\<close> when either is.\<close>

definition Math_max :: "number \<Rightarrow> number \<Rightarrow> number" where
  "Math_max x y = (if x = NaN \<or> y = NaN then NaN else if num_le x y then y else x)"

definition Math_min :: "number \<Rightarrow> number \<Rightarrow> number" where
  "Math_min x y = (if x = NaN \<or> y = NaN then NaN else if num_le x y then x else y)"

text \<open>\<^verbatim>\<open>Math.round\<close>: the nearest integer, a tie going up (\<^verbatim>\<open>Math.round(2.5) = 3\<close>,
  \<^verbatim>\<open>Math.round(-2.5) = -2\<close>); an infinity and \<^verbatim>\<open>NaN\<close> stay. The result is exact: the
  nearest integer of a binary64 value is a binary64 value.\<close>

fun Math_round :: "number \<Rightarrow> number" where
  "Math_round (Fin x) = Fin (of_int \<lfloor>x + 1 / 2\<rfloor>)"
| "Math_round x = x"

text \<open>\<^verbatim>\<open>function clamp(v, a=0, b=100){ return Math.max(a, Math.min(b, v)) }\<close>\<close>

definition clamp :: "number \<Rightarrow> number \<Rightarrow> number \<Rightarrow> number" where
  "clamp v a b = Math_max a (Math_min b v)"

subsection \<open>JSON values and the host built-ins\<close>

text \<open>A value \<^verbatim>\<open>JSON.parse\<close> returns, which is also what the store returns for a JSON
  column. An object is the list of its members, each key once.\<close>

datatype json =
    JNull
  | JBool bool
  | JNum number
  | JStr js_string
  | JArr "json list"
  | JObj "(js_string \<times> json) list"

text \<open>
  A value the handler prints and returns as a factor: a number or, for the network
  factor, a member its table inherits from \<^verbatim>\<open>Object.prototype\<close>, known by its name.
\<close>

datatype js_value = Number_value number | Inherited_member js_string

text \<open>
  The built-ins the handler calls. \<open>JSON_parse\<close> is \<open>None\<close> where \<^verbatim>\<open>JSON.parse\<close> throws a
  \<^verbatim>\<open>SyntaxError\<close>; \<open>ToString\<close> is the conversion a template literal applies to a value;
  \<open>ToNumber\<close> is the conversion an arithmetic operator applies to a string, an array or an
  object.
\<close>

record host =
  JSON_parse :: "js_string \<Rightarrow> json option"
  ToString :: "js_value \<Rightarrow> js_string"
  ToNumber :: "json \<Rightarrow> number"

text \<open>Reading a member of a parsed value that is not \<^verbatim>\<open>null\<close>: \<open>None\<close> is \<^verbatim>\<open>undefined\<close>.
  Only an object has members named \<^verbatim>\<open>narrative\<close> or \<^verbatim>\<open>recommendations\<close>.\<close>

fun get_member :: "json \<Rightarrow> js_string \<Rightarrow> json option" where
  "get_member (JObj members) k = map_of members k"
| "get_member _ k = None"

text \<open>\<^verbatim>\<open>v ?? d\<close>: the default replaces \<^verbatim>\<open>undefined\<close> and \<^verbatim>\<open>null\<close>.\<close>

definition nullish_or :: "json option \<Rightarrow> json \<Rightarrow> json" where
  "nullish_or v d = (case v of None \<Rightarrow> d | Some JNull \<Rightarrow> d | Some x \<Rightarrow> x)"

text \<open>Truthiness of a value, and of an optional one.\<close>

fun truthy :: "json \<Rightarrow> bool" where
  "truthy JNull = False"
| "truthy (JBool b) = b"
| "truthy (JNum n) = (n \<noteq> Fin 0 \<and> n \<noteq> NaN)"
| "truthy (JStr s) = (s \<noteq> [])"
| "truthy (JArr xs) = True"
| "truthy (JObj members) = True"

text \<open>\<^verbatim>\<open>v.length\<close> as a condition, for a value that is not \<^verbatim>\<open>null\<close>: an array and a string
  have a length, an object may have a member of that name, a number or a boolean has
  none.\<close>

fun length_truthy :: "json \<Rightarrow> bool" where
  "length_truthy (JArr xs) = (xs \<noteq> [])"
| "length_truthy (JStr s) = (s \<noteq> [])"
| "length_truthy (JObj members) =
     (case map_of members (lit ''length'') of None \<Rightarrow> False | Some v \<Rightarrow> truthy v)"
| "length_truthy _ = False"

text \<open>The number an arithmetic operator makes of an operand: \<^verbatim>\<open>undefined\<close> is \<^verbatim>\<open>NaN\<close>,
  \<^verbatim>\<open>null\<close> and \<^verbatim>\<open>false\<close> are 0, \<^verbatim>\<open>true\<close> is 1.\<close>

definition to_number :: "host \<Rightarrow> json option \<Rightarrow> number" where
  "to_number h v =
     (case v of
        None \<Rightarrow> NaN
      | Some JNull \<Rightarrow> Fin 0
      | Some (JBool b) \<Rightarrow> Fin (if b then 1 else 0)
      | Some (JNum n) \<Rightarrow> n
      | Some other \<Rightarrow> ToNumber h other)"

subsection \<open>The payload and the weights\<close>

record Payload =
  fullName :: js_string
  email :: js_string
  dateOfBirth :: "js_string option"
  gender :: "js_string option"
  employmentStatus :: "js_string option"
  totalExperience :: real
  skillProficiencyAvg :: real
  trainingHours12mo :: real
  performanceRating :: real
  linkedinNetworkSize :: js_string
  willingToRelocate :: js_string
  preferredWorkModel :: "js_string option"
  noticePeriodDays :: "real option"

text \<open>The type declares \<^verbatim>\<open>noticePeriodDays: number\<close>, but the handler reads it with
  \<^verbatim>\<open>?? 30\<close>, so the field is optional here.\<close>

text \<open>
  The six numbers of a weight vector. The literals of \<^verbatim>\<open>DEFAULT_WEIGHTS\<close> denote the
  binary64 values nearest to them. The handler keeps the vector as the object it got
  (\<^verbatim>\<open>weights\<close>, of type \<^verbatim>\<open>any\<close>) and reads its six members where it multiplies.
\<close>

record weights =
  skills :: number
  performance :: number
  network :: number
  mobility :: number
  notice :: number
  plateau :: number

definition DEFAULT_WEIGHTS :: json where
  "DEFAULT_WEIGHTS =
     JObj [ (lit ''skills'', JNum (fl 0.28)), (lit ''performance'', JNum (fl 0.22)),
            (lit ''network'', JNum (fl 0.18)), (lit ''mobility'', JNum (fl 0.12)),
            (lit ''notice'', JNum (fl 0.12)), (lit ''plateau'', JNum (fl 0.08)) ]"

text \<open>The row the \<^verbatim>\<open>weights\<close> table returns (\<^verbatim>\<open>wdata\<close>), its \<^verbatim>\<open>weights\<close> column being any
  JSON value or missing, and \<^verbatim>\<open>const weights = wdata?.weights ?? DEFAULT_WEIGHTS\<close>.\<close>

record weights_row =
  row_weights :: "json option"

definition resolve_weights :: "weights_row option \<Rightarrow> json" where
  "resolve_weights wdata =
     (case wdata of
        None \<Rightarrow> DEFAULT_WEIGHTS
      | Some row \<Rightarrow> nullish_or (row_weights row) DEFAULT_WEIGHTS)"

text \<open>\<^verbatim>\<open>weights.skills\<close>, \<^verbatim>\<open>weights.performance\<close>, ... as the operands of the six products.\<close>

definition read_weights :: "host \<Rightarrow> json \<Rightarrow> weights" where
  "read_weights h w =
     \<lparr> skills = to_number h (get_member w (lit ''skills'')),
       performance = to_number h (get_member w (lit ''performance'')),
       network = to_number h (get_member w (lit ''network'')),
       mobility = to_number h (get_member w (lit ''mobility'')),
       notice = to_number h (get_member w (lit ''notice'')),
       plateau = to_number h (get_member w (lit ''plateau'')) \<rparr>"

subsection \<open>The six factors\<close>

definition skillsRisk_of :: "Payload \<Rightarrow> number" where
  "skillsRisk_of p = fsub (Fin 100) (fmul (fdiv (Fin (skillProficiencyAvg p)) (Fin 5)) (Fin 100))"

definition performanceRisk_of :: "Payload \<Rightarrow> number" where
  "performanceRisk_of p =
     fsub (Fin 100) (fmul (fdiv (Fin (performanceRating p)) (Fin 5)) (Fin 100))"

text \<open>The keys of \<^verbatim>\<open>networkMap\<close> as the source spells them: a space follows \<^verbatim>\<open><\<close> and
  \<^verbatim>\<open>>\<close>, and the two ranges are written with an en dash (U+2013).\<close>

definition en_dash :: "16 word" where
  "en_dash = 0x2013"

definition networkMap :: "(js_string \<times> real) list" where
  "networkMap =
     [ (lit ''< 500'', 70),
       (lit ''500'' @ [en_dash] @ lit ''1,000'', 50),
       (lit ''1,001'' @ [en_dash] @ lit ''5,000'', 30),
       (lit ''> 5,000'', 10) ]"

text \<open>
  \<^verbatim>\<open>networkMap[p.linkedinNetworkSize] ?? 60\<close>. An object literal also inherits the members
  of \<^verbatim>\<open>Object.prototype\<close>: for the names below the lookup yields the inherited member, a
  function or the prototype object, which is not nullish and is kept (\<open>inherits_member\<close>).
  For every other name the lookup is among the four keys of the literal, with the default
  60 (\<open>networkRisk_of\<close>).
\<close>

definition Object_prototype_names :: "js_string list" where
  "Object_prototype_names =
     [ lit ''constructor'', lit ''hasOwnProperty'', lit ''isPrototypeOf'',
       lit ''propertyIsEnumerable'', lit ''toLocaleString'', lit ''toString'',
       lit ''valueOf'', lit ''__proto__'', lit ''__defineGetter__'',
       lit ''__defineSetter__'', lit ''__lookupGetter__'', lit ''__lookupSetter__'' ]"

definition inherits_member :: "Payload \<Rightarrow> bool" where
  "inherits_member p = (linkedinNetworkSize p \<in> set Object_prototype_names)"

definition networkRisk_of :: "Payload \<Rightarrow> real" where
  "networkRisk_of p =
     (case map_of networkMap (linkedinNetworkSize p) of Some v \<Rightarrow> v | None \<Rightarrow> 60)"

definition mobilityRisk_of :: "Payload \<Rightarrow> real" where
  "mobilityRisk_of p = (if willingToRelocate p = lit ''Yes'' then 10 else 40)"

text \<open>\<^verbatim>\<open>const notice = Number(p.noticePeriodDays ?? 30)\<close>, then the chain of thresholds.\<close>

definition notice_days :: "Payload \<Rightarrow> real" where
  "notice_days p = (case noticePeriodDays p of None \<Rightarrow> 30 | Some d \<Rightarrow> d)"

definition noticeRisk_of :: "Payload \<Rightarrow> real" where
  "noticeRisk_of p =
     (let notice = notice_days p in
      if notice \<ge> 90 then 80
      else if notice \<ge> 60 then 70
      else if notice \<ge> 30 then 50
      else if notice \<ge> 15 then 30
      else if notice \<ge> 7 then 20
      else 10)"

definition plateauRisk_of :: "Payload \<Rightarrow> real" where
  "plateauRisk_of p = (if totalExperience p \<ge> 12 then 40 else 20)"

text \<open>
  The six factors as the operands of the weighted sum. The last four are the constants
  chosen above. An inherited member is \<^verbatim>\<open>NaN\<close> as an operand: neither a built-in function
  nor the prototype object converts to a number.
\<close>

record risk_details =
  skillsRisk :: number
  performanceRisk :: number
  networkRisk :: number
  mobilityRisk :: number
  noticeRisk :: number
  plateauRisk :: number

definition compute_factors :: "Payload \<Rightarrow> risk_details" where
  "compute_factors p =
     \<lparr> skillsRisk = skillsRisk_of p, performanceRisk = performanceRisk_of p,
       networkRisk = (if inherits_member p then NaN else Fin (networkRisk_of p)),
       mobilityRisk = Fin (mobilityRisk_of p),
       noticeRisk = Fin (noticeRisk_of p), plateauRisk = Fin (plateauRisk_of p) \<rparr>"

subsection \<open>Score and tier\<close>

text \<open>The sum of lines 105 to 110: six products, added from left to right.\<close>

definition raw_score :: "risk_details \<Rightarrow> weights \<Rightarrow> number" where
  "raw_score d w =
     fadd (fadd (fadd (fadd (fadd
       (fmul (skillsRisk d) (skills w))
       (fmul (performanceRisk d) (performance w)))
       (fmul (networkRisk d) (network w)))
       (fmul (mobilityRisk d) (mobility w)))
       (fmul (noticeRisk d) (notice w)))
       (fmul (plateauRisk d) (plateau w))"

definition score_of :: "risk_details \<Rightarrow> weights \<Rightarrow> number" where
  "score_of d w = clamp (Math_round (raw_score d w)) (Fin 0) (Fin 100)"

definition tier_of :: "number \<Rightarrow> js_string" where
  "tier_of score =
     (if num_le score (Fin 30) then lit ''Low''
      else if num_le score (Fin 60) then lit ''Medium'' else lit ''High'')"

subsection \<open>The specification's reading of the aggregation\<close>

text \<open>The six factors and the six weights in the order the specification pairs them; the
  exact dot product of their values; rounding to the nearest integer and the clamp to
  \<open>[0,100]\<close> on the reals.\<close>

definition factor_list :: "risk_details \<Rightarrow> number list" where
  "factor_list d =
     [skillsRisk d, performanceRisk d, networkRisk d, mobilityRisk d, noticeRisk d, plateauRisk d]"

definition weight_list :: "weights \<Rightarrow> number list" where
  "weight_list w = [skills w, performance w, network w, mobility w, notice w, plateau w]"

fun real_of :: "number \<Rightarrow> real" where
  "real_of (Fin x) = x"
| "real_of x = 0"

definition dot_product :: "real list \<Rightarrow> real list \<Rightarrow> real" where
  "dot_product xs ys = sum_list (map (\<lambda>(x, y). x * y) (zip xs ys))"

definition exact_dot :: "risk_details \<Rightarrow> weights \<Rightarrow> real" where
  "exact_dot d w = dot_product (map real_of (factor_list d)) (map real_of (weight_list w))"

definition nearest_integer :: "real \<Rightarrow> real" where
  "nearest_integer x = of_int \<lfloor>x + 1 / 2\<rfloor>"

definition clamp_0_100 :: "real \<Rightarrow> real" where
  "clamp_0_100 x = (if x < 0 then 0 else if x > 100 then 100 else x)"

text \<open>The dot product as binary64 arithmetic computes it: every product rounded, the
  products added in their order, every partial sum rounded.\<close>

fun float_sum :: "number list \<Rightarrow> number" where
  "float_sum [] = Fin 0"
| "float_sum (x # xs) = foldl fadd x xs"

definition float_dot :: "number list \<Rightarrow> number list \<Rightarrow> number" where
  "float_dot xs ys = float_sum (map (\<lambda>(x, y). fmul x y) (zip xs ys))"

text \<open>A finite number that is not negative.\<close>

fun nonneg_finite :: "number \<Rightarrow> bool" where
  "nonneg_finite (Fin x) = (0 \<le> x)"
| "nonneg_finite x = False"

section \<open>The narrative client\<close>

subsection \<open>Lines of a text\<close>

text \<open>\<^verbatim>\<open>s.split(d)\<close> for a one-unit separator: the pieces between the separators, so a text
  without one is its only piece and the empty text has one empty piece.\<close>

fun split_on :: "'a \<Rightarrow> 'a list \<Rightarrow> 'a list list" where
  "split_on d [] = [[]]"
| "split_on d (c # cs) =
     (if c = d then [] # split_on d cs
      else (case split_on d cs of l # ls \<Rightarrow> (c # l) # ls | [] \<Rightarrow> [[c]]))"

text \<open>\<^verbatim>\<open>s.trim()\<close> removes white space and line terminators from both ends: TAB, LF, VT, FF,
  CR, the space, U+00A0, U+1680, U+2000 to U+200A, U+2028, U+2029, U+202F, U+205F, U+3000
  and U+FEFF.\<close>

definition is_white_space :: "16 word \<Rightarrow> bool" where
  "is_white_space c =
     (c \<in> {0x9, 0xA, 0xB, 0xC, 0xD, 0x20, 0xA0, 0x1680, 0x2028, 0x2029, 0x202F, 0x205F,
            0x3000, 0xFEFF}
      \<or> (0x2000 \<le> c \<and> c \<le> 0x200A))"

definition trim :: "js_string \<Rightarrow> js_string" where
  "trim s = rev (dropWhile is_white_space (rev (dropWhile is_white_space s)))"

definition newline :: "16 word" where
  "newline = 0xA"

text \<open>\<^verbatim>\<open>rawText.split('\n').slice(0,5).map(s => s.trim()).filter(Boolean)\<close>\<close>

definition fallback_recommendations :: "js_string \<Rightarrow> js_string list" where
  "fallback_recommendations rawText =
     filter (\<lambda>s. s \<noteq> []) (map trim (take 5 (split_on newline rawText)))"

subsection \<open>The reply of the generation service\<close>

text \<open>The reply of \<^verbatim>\<open>deepseekGenerate\<close>, after the interface of the specification: a text, or
  a list of choices with a text each. \<open>Throws\<close> is a call that fails (it also stands for a
  reply that is \<^verbatim>\<open>null\<close>, on which reading \<^verbatim>\<open>resp.text\<close> throws).\<close>

record choice =
  choice_text :: "js_string option"

record ds_response =
  resp_text :: "js_string option"
  resp_choices :: "choice list option"

datatype ds_outcome = Throws | Returns ds_response

text \<open>\<^verbatim>\<open>const rawText = resp.text ?? (resp.choices && resp.choices[0]?.text) ?? ''\<close>\<close>

definition rawText_of :: "ds_response \<Rightarrow> js_string" where
  "rawText_of resp =
     (case resp_text resp of
        Some t \<Rightarrow> t
      | None \<Rightarrow>
          (case resp_choices resp of
             None \<Rightarrow> []
           | Some [] \<Rightarrow> []
           | Some (c # cs) \<Rightarrow> (case choice_text c of Some t \<Rightarrow> t | None \<Rightarrow> [])))"

record narrative =
  llmNarrative :: json
  llmRecommendations :: json

text \<open>The \<^verbatim>\<open>catch\<close> branch of the inner \<^verbatim>\<open>try\<close>.\<close>

definition fallback :: "js_string \<Rightarrow> narrative" where
  "fallback rawText =
     \<lparr> llmNarrative = JStr rawText,
       llmRecommendations = JArr (map JStr (fallback_recommendations rawText)) \<rparr>"

text \<open>
  The inner \<^verbatim>\<open>try\<close>. The \<^verbatim>\<open>catch\<close> branch runs when \<^verbatim>\<open>JSON.parse\<close> throws, and also when the
  text parses to \<^verbatim>\<open>null\<close>, on which reading \<^verbatim>\<open>parsed.narrative\<close> throws a \<^verbatim>\<open>TypeError\<close>
  inside the same \<^verbatim>\<open>try\<close>.
\<close>

definition parse_reply :: "host \<Rightarrow> js_string \<Rightarrow> narrative" where
  "parse_reply h rawText =
     (case JSON_parse h rawText of
        None \<Rightarrow> fallback rawText
      | Some parsed \<Rightarrow>
          (if parsed = JNull then fallback rawText
           else \<lparr> llmNarrative = nullish_or (get_member parsed (lit ''narrative'')) (JStr rawText),
                  llmRecommendations =
                    nullish_or (get_member parsed (lit ''recommendations'')) (JArr []) \<rparr>))"

datatype log_entry =
    Log_deepseek_error
  | Log_insert_error js_string
  | Log_llm_store_failed
  | Log_exception

text \<open>The outer \<^verbatim>\<open>try\<close> around the call: a failure is logged and leaves
  \<^verbatim>\<open>llmNarrative = null\<close> and \<^verbatim>\<open>llmRecommendations = []\<close>.\<close>

definition narrate :: "host \<Rightarrow> ds_outcome \<Rightarrow> narrative \<times> log_entry list" where
  "narrate h outcome =
     (case outcome of
        Throws \<Rightarrow> (\<lparr> llmNarrative = JNull, llmRecommendations = JArr [] \<rparr>, [Log_deepseek_error])
      | Returns resp \<Rightarrow> (parse_reply h (rawText_of resp), []))"

section \<open>The handler\<close>

subsection \<open>The request, the awaited results and the response\<close>

record request =
  req_method :: js_string
  req_authorization :: "js_string option"
  req_body :: Payload

text \<open>
  The result of \<^verbatim>\<open>supabaseAdmin.auth.getUser(token)\<close>, destructured into \<^verbatim>\<open>userData\<close> and
  \<^verbatim>\<open>userErr\<close>. The handler tests \<^verbatim>\<open>userData?.user\<close> (line 76) and then reads
  \<^verbatim>\<open>userData.data.user\<close> (line 77), so \<open>user_data\<close> has both members, each optional.
  (\<^verbatim>\<open>check-admin.ts\<close> reads the user of the same call as \<^verbatim>\<open>data?.user\<close> only.)
\<close>

record user =
  user_id :: js_string

record user_holder =
  holder_user :: "user option"

record user_data =
  ud_user :: "user option"
  ud_data :: "user_holder option"

record get_user_result =
  gu_data :: "user_data option"
  gu_error :: "js_string option"

text \<open>
  The result of the insert into \<^verbatim>\<open>profiles\<close>: the stored row and an error with its
  message. The store's client reports a failure in the result it resolves to, so the
  user lookup and this insert are values here. The weight query resolves to a row or to
  none (\<^verbatim>\<open>data\<close> is \<^verbatim>\<open>null\<close> also when the client reports an error, which the handler does
  not read), or it rejects: the handler has no \<^verbatim>\<open>try\<close> around it but the outer one. The two
  calls the handler wraps in a \<^verbatim>\<open>try\<close> of their own can fail by throwing as well: the
  generation service (\<open>Throws\<close>) and the awaited insert into \<^verbatim>\<open>llm_outputs\<close>, which
  resolves (its result is not read) or rejects.
\<close>

record inserted_row =
  row_id :: js_string

record insert_result =
  ins_data :: "inserted_row option"
  ins_error :: "js_string option"

datatype llm_insert_outcome = Insert_resolves | Insert_rejects

datatype weights_outcome = Query_rejects | Query_resolves "weights_row option"

record env =
  auth_getUser :: get_user_result
  weights_select :: weights_outcome
  deepseekGenerate :: ds_outcome
  profiles_insert :: insert_result
  llm_outputs_insert :: llm_insert_outcome

record explain_entry =
  entry_factor :: js_string
  entry_value :: js_value
  entry_text :: js_string

record success =
  res_score :: number
  res_tier :: js_string
  res_explainability :: "explain_entry list"
  res_recommendations :: json
  res_profileId :: js_string

text \<open>The body of a response: \<^verbatim>\<open>{ error: message }\<close>, the body the outer \<^verbatim>\<open>catch\<close> builds
  from a thrown exception (its message is the engine's), or the result with \<^verbatim>\<open>ok: true\<close>.\<close>

datatype body =
    Error_body js_string
  | Exception_body
  | Success_body success

record response =
  status :: nat
  body :: body

subsection \<open>The steps of the handler\<close>

text \<open>\<^verbatim>\<open>s.replace(pattern, replacement)\<close> with a string pattern: the first occurrence.\<close>

fun replace_first :: "'a list \<Rightarrow> 'a list \<Rightarrow> 'a list \<Rightarrow> 'a list" where
  "replace_first pat rep [] = (if pat = [] then rep else [])"
| "replace_first pat rep (c # cs) =
     (if prefix pat (c # cs) then rep @ drop (length pat) (c # cs)
      else c # replace_first pat rep cs)"

text \<open>\<^verbatim>\<open>const auth = req.headers.authorization || ''\<close> and
  \<^verbatim>\<open>const token = auth.replace('Bearer ', '')\<close>\<close>

definition token_of :: "request \<Rightarrow> js_string" where
  "token_of req =
     replace_first (lit ''Bearer '') []
       (case req_authorization req of None \<Rightarrow> [] | Some a \<Rightarrow> a)"

text \<open>The value \<^verbatim>\<open>networkRisk\<close> holds: the inherited member where the lookup yields one, the
  number of the table otherwise.\<close>

definition network_value :: "Payload \<Rightarrow> risk_details \<Rightarrow> js_value" where
  "network_value p d =
     (if inherits_member p then Inherited_member (linkedinNetworkSize p)
      else Number_value (networkRisk d))"

definition explainability_of :: "host \<Rightarrow> Payload \<Rightarrow> risk_details \<Rightarrow> explain_entry list" where
  "explainability_of h p d =
     [ \<lparr> entry_factor = lit ''Skills relevance'',
         entry_value = Number_value (Math_round (skillsRisk d)),
         entry_text =
           lit ''Skill-related risk is '' @ ToString h (Number_value (Math_round (skillsRisk d)))
             @ lit ''.'' \<rparr>,
       \<lparr> entry_factor = lit ''Performance'',
         entry_value = Number_value (Math_round (performanceRisk d)),
         entry_text =
           lit ''Performance risk '' @ ToString h (Number_value (Math_round (performanceRisk d)))
             @ lit ''.'' \<rparr>,
       \<lparr> entry_factor = lit ''Network'',
         entry_value = network_value p d,
         entry_text = lit ''Network risk '' @ ToString h (network_value p d) @ lit ''.'' \<rparr>,
       \<lparr> entry_factor = lit ''Mobility'',
         entry_value = Number_value (mobilityRisk d),
         entry_text =
           (if willingToRelocate p = lit ''Yes'' then lit ''Mobility lowers risk.''
            else lit ''Limited mobility increases risk.'') \<rparr>,
       \<lparr> entry_factor = lit ''Notice period'',
         entry_value = Number_value (noticeRisk d),
         entry_text =
           lit ''Notice period risk '' @ ToString h (Number_value (noticeRisk d)) @ lit ''.'' \<rparr>,
       \<lparr> entry_factor = lit ''Experience plateau'',
         entry_value = Number_value (plateauRisk d),
         entry_text =
           (if plateauRisk d = Fin 40 then lit ''Possible plateau.'' else lit ''Balanced tenure.'') \<rparr> ]"

text \<open>The condition of the second write:
  \<^verbatim>\<open>llmNarrative || (llmRecommendations && llmRecommendations.length)\<close>\<close>

definition wants_llm_record :: "narrative \<Rightarrow> bool" where
  "wants_llm_record n =
     (truthy (llmNarrative n)
      \<or> (truthy (llmRecommendations n) \<and> length_truthy (llmRecommendations n)))"

text \<open>\<^verbatim>\<open>llmRecommendations.length ? llmRecommendations : ['See dashboard for recommended
  actions.']\<close>\<close>

definition recommendations_of :: "narrative \<Rightarrow> json" where
  "recommendations_of n =
     (if length_truthy (llmRecommendations n) then llmRecommendations n
      else JArr [JStr (lit ''See dashboard for recommended actions.'')])"

definition thrown :: response where
  "thrown = \<lparr> status = 500, body = Exception_body \<rparr>"

definition error_response :: "nat \<Rightarrow> js_string \<Rightarrow> response" where
  "error_response code msg = \<lparr> status = code, body = Error_body msg \<rparr>"

text \<open>
  From \<^verbatim>\<open>const weights = ...\<close> to the response, for the row \<^verbatim>\<open>wdata\<close> the weight query
  resolved to and the value \<^verbatim>\<open>user\<close> read from \<^verbatim>\<open>userData.data.user\<close>. The rows written are
  not part of the model; what the two inserts return is. Reading \<^verbatim>\<open>user.id\<close> for the row
  and \<^verbatim>\<open>data.id\<close> for the response throws when the value is missing, and the outer
  \<^verbatim>\<open>catch\<close> answers.
\<close>

definition score_request ::
  "host \<Rightarrow> env \<Rightarrow> weights_row option \<Rightarrow> user option \<Rightarrow> Payload
     \<Rightarrow> response \<times> log_entry list" where
  "score_request h e wdata user_opt p =
     (let weights = resolve_weights wdata;
          d = compute_factors p;
          score = score_of d (read_weights h weights);
          tier = tier_of score;
          explainability = explainability_of h p d;
          (n, log1) = narrate h (deepseekGenerate e)
      in case user_opt of
           None \<Rightarrow> (thrown, log1 @ [Log_exception])
         | Some u \<Rightarrow>
             (case ins_error (profiles_insert e) of
                Some msg \<Rightarrow> (error_response 500 msg, log1 @ [Log_insert_error msg])
              | None \<Rightarrow>
                  (let log2 =
                         log1 @
                         (if wants_llm_record n \<and> llm_outputs_insert e = Insert_rejects
                          then [Log_llm_store_failed] else [])
                   in case ins_data (profiles_insert e) of
                        None \<Rightarrow> (thrown, log2 @ [Log_exception])
                      | Some row \<Rightarrow>
                          (\<lparr> status = 200,
                             body = Success_body
                               \<lparr> res_score = score, res_tier = tier,
                                 res_explainability = explainability,
                                 res_recommendations = recommendations_of n,
                                 res_profileId = row_id row \<rparr> \<rparr>,
                           log2))))"

text \<open>The handler: the response and what it logged with \<^verbatim>\<open>console.error\<close>. A weight query
  that rejects is caught by the outer \<^verbatim>\<open>catch\<close>, as every other exception is.\<close>

definition handler :: "host \<Rightarrow> env \<Rightarrow> request \<Rightarrow> response \<times> log_entry list" where
  "handler h e req =
     (if req_method req \<noteq> lit ''POST'' then (error_response 405 (lit ''Method not allowed''), [])
      else if token_of req = [] then (error_response 401 (lit ''Missing token''), [])
      else if gu_error (auth_getUser e) \<noteq> None
        then (error_response 401 (lit ''Invalid token''), [])
      else
        (case gu_data (auth_getUser e) of
           None \<Rightarrow> (error_response 401 (lit ''Invalid token''), [])
         | Some userData \<Rightarrow>
             (case ud_user userData of
                None \<Rightarrow> (error_response 401 (lit ''Invalid token''), [])
              | Some checked \<Rightarrow>
                  (case ud_data userData of
                     None \<Rightarrow> (thrown, [Log_exception])
                   | Some holder \<Rightarrow>
                       (case weights_select e of
                          Query_rejects \<Rightarrow> (thrown, [Log_exception])
                        | Query_resolves wdata \<Rightarrow>
                            score_request h e wdata (holder_user holder) (req_body req))))))"

section \<open>The specification's readings\<close>

text \<open>The specification's bucket table for the network factor, with its keys as the
  specification writes them, and its default.\<close>

definition spec_networkMap :: "(js_string \<times> real) list" where
  "spec_networkMap =
     [ (lit ''<500'', 70),
       (lit ''500'' @ [en_dash] @ lit ''1,000'', 50),
       (lit ''1,001'' @ [en_dash] @ lit ''5,000'', 30),
       (lit ''>5,000'', 10) ]"

definition spec_networkRisk :: "js_string \<Rightarrow> real" where
  "spec_networkRisk key = (case map_of spec_networkMap key of Some v \<Rightarrow> v | None \<Rightarrow> 60)"

text \<open>The specification's skill and performance factors, which clamp the input to
  \<open>[0,5]\<close> before scaling.\<close>

definition spec_scaled_risk :: "real \<Rightarrow> number" where
  "spec_scaled_risk v =
     fsub (Fin 100) (fmul (fdiv (clamp (Fin v) (Fin 0) (Fin 5)) (Fin 5)) (Fin 100))"

text \<open>The specification's fallback recommendations: the first 5 non-empty trimmed lines
  of the raw text.\<close>

definition spec_first_five :: "js_string \<Rightarrow> js_string list" where
  "spec_first_five rawText =
     take 5 (filter (\<lambda>s. s \<noteq> []) (map trim (split_on newline rawText)))"

text \<open>A request reaches the insert into \<^verbatim>\<open>profiles\<close> when it is a POST with a token, the
  user is found at both places the handler reads it, and the weight query resolves.\<close>

definition reaches_insert :: "env \<Rightarrow> request \<Rightarrow> bool" where
  "reaches_insert e req =
     (req_method req = lit ''POST'' \<and> token_of req \<noteq> []
      \<and> gu_error (auth_getUser e) = None
      \<and> (case gu_data (auth_getUser e) of
            None \<Rightarrow> False
          | Some userData \<Rightarrow>
              ud_user userData \<noteq> None
              \<and> (case ud_data userData of
                    None \<Rightarrow> False
                  | Some holder \<Rightarrow> holder_user holder \<noteq> None))
      \<and> weights_select e \<noteq> Query_rejects)"

text \<open>A request reaches the weight query when it is a POST with a token and the user is
  found by \<^verbatim>\<open>userData?.user\<close> and \<^verbatim>\<open>userData.data\<close> exists.\<close>

definition reaches_weights :: "env \<Rightarrow> request \<Rightarrow> bool" where
  "reaches_weights e req =
     (req_method req = lit ''POST'' \<and> token_of req \<noteq> []
      \<and> gu_error (auth_getUser e) = None
      \<and> (case gu_data (auth_getUser e) of
            None \<Rightarrow> False
          | Some userData \<Rightarrow> ud_user userData \<noteq> None \<and> ud_data userData \<noteq> None))"

text \<open>The six weights an execution multiplies with, when its weight query resolves.\<close>

definition used_weights :: "host \<Rightarrow> env \<Rightarrow> weights option" where
  "used_weights h e =
     (case weights_select e of
        Query_rejects \<Rightarrow> None
      | Query_resolves wdata \<Rightarrow> Some (read_weights h (resolve_weights wdata)))"

section \<open>Sample inputs\<close>

subsection \<open>A sample profile\<close>

text \<open>The profile of the specification's end-to-end example, with the network size
  spelled as the source's table spells it.\<close>

definition sample_payload :: Payload where
  "sample_payload =
     \<lparr> fullName = lit ''Ada Example'', email = lit ''ada@example.org'',
       dateOfBirth = None, gender = None, employmentStatus = None,
       totalExperience = 5, skillProficiencyAvg = 5, trainingHours12mo = 0,
       performanceRating = 5, linkedinNetworkSize = lit ''> 5,000'',
       willingToRelocate = lit ''Yes'', preferredWorkModel = None,
       noticePeriodDays = Some 0 \<rparr>"

text \<open>A profile whose exact weighted sum is a tie: proficiency 2.5, rating 3.75, the
  network size of the third bucket, willing to relocate, no notice period, 12 years.\<close>

definition tie_payload :: Payload where
  "tie_payload =
     sample_payload
       \<lparr> totalExperience := 12, skillProficiencyAvg := 2.5, performanceRating := 3.75,
         linkedinNetworkSize := lit ''1,001'' @ [en_dash] @ lit ''5,000'' \<rparr>"

text \<open>Two factors of opposite sign whose weighted products overflow.\<close>

definition overflow_details :: risk_details where
  "overflow_details =
     \<lparr> skillsRisk = Fin (- (2 ^ 1023)), performanceRisk = Fin (2 ^ 1023), networkRisk = Fin 0,
       mobilityRisk = Fin 0, noticeRisk = Fin 0, plateauRisk = Fin 0 \<rparr>"

definition overflow_weights :: weights where
  "overflow_weights =
     \<lparr> skills = Fin 2, performance = Fin 2, network = Fin 0, mobility = Fin 0,
       notice = Fin 0, plateau = Fin 0 \<rparr>"

text \<open>A stored weight vector that lacks five of its six members.\<close>

definition malformed_weights :: json where
  "malformed_weights = JObj [(lit ''skills'', JNum (Fin 1))]"

subsection \<open>Sample replies and a sample host\<close>

text \<open>A reply that is no JSON: a blank first line, then five lines.\<close>

definition blank_first_text :: js_string where
  "blank_first_text =
     lit ''\<newline>Learn SQL\<newline>Find a mentor\<newline>Ask for feedback\<newline>Grow your network\<newline>Update your CV''"

text \<open>A reply that is JSON and carries six recommendations, and the value it parses to.\<close>

definition six_text :: js_string where
  \<open>six_text =
     lit ''{"narrative":"x","recommendations":["a","b","c","d","e","f"]}''\<close>

definition six_json :: json where
  "six_json =
     JObj [ (lit ''narrative'', JStr (lit ''x'')),
            (lit ''recommendations'',
             JArr [JStr (lit ''a''), JStr (lit ''b''), JStr (lit ''c''),
                   JStr (lit ''d''), JStr (lit ''e''), JStr (lit ''f'')]) ]"

text \<open>Decimal digits: the conversion of a value to a string on the integers the handler
  prints, and on an inherited function as the engine prints a built-in one.\<close>

fun digits :: "nat \<Rightarrow> js_string" where
  "digits n =
     (if n < 10 then [of_nat (48 + n)] else digits (n div 10) @ [of_nat (48 + n mod 10)])"

definition decimal :: "js_value \<Rightarrow> js_string" where
  "decimal v =
     (case v of
        Number_value (Fin x) \<Rightarrow>
          (if x < 0 then 0x2D # digits (nat \<lfloor>- x\<rfloor>) else digits (nat \<lfloor>x\<rfloor>))
      | Number_value PInf \<Rightarrow> lit ''Infinity''
      | Number_value NInf \<Rightarrow> lit ''-Infinity''
      | Number_value NaN \<Rightarrow> lit ''NaN''
      | Inherited_member k \<Rightarrow>
          (if k = lit ''__proto__'' then lit ''[object Object]''
           else lit ''function '' @ k @ lit ''() { [native code] }''))"

text \<open>A host for the examples: its \<open>JSON_parse\<close> is given on the JSON text used here, and
  the other sample text is no JSON; the examples convert no string, array or object to a
  number.\<close>

definition sample_host :: host where
  "sample_host =
     \<lparr> JSON_parse = (\<lambda>t. if t = six_text then Some six_json else None),
       ToString = decimal,
       ToNumber = (\<lambda>v. NaN) \<rparr>"

definition reply :: "js_string \<Rightarrow> ds_outcome" where
  "reply t = Returns \<lparr> resp_text = Some t, resp_choices = None \<rparr>"

subsection \<open>A sample request and its environment\<close>

definition sample_user :: user where
  "sample_user = \<lparr> user_id = lit ''user-1'' \<rparr>"

definition sample_env :: env where
  "sample_env =
     \<lparr> auth_getUser =
         \<lparr> gu_data = Some \<lparr> ud_user = Some sample_user,
                            ud_data = Some \<lparr> holder_user = Some sample_user \<rparr> \<rparr>,
           gu_error = None \<rparr>,
       weights_select = Query_resolves None,
       deepseekGenerate = Throws,
       profiles_insert = \<lparr> ins_data = Some \<lparr> row_id = lit ''profile-1'' \<rparr>, ins_error = None \<rparr>,
       llm_outputs_insert = Insert_resolves \<rparr>"

definition sample_request :: request where
  "sample_request =
     \<lparr> req_method = lit ''POST'', req_authorization = Some (lit ''Bearer abc''),
       req_body = sample_payload \<rparr>"

section \<open>Properties of binary64 rounding\<close>

lemma rhe_cases: "round_half_even y = \<lfloor>y\<rfloor> \<or> round_half_even y = \<lfloor>y\<rfloor> + 1"
  by (simp add: round_half_even_def Let_def)

lemma rhe_of_int: "round_half_even (of_int n) = n"
  by (simp add: round_half_even_def Let_def)

lemma rhe_le_int: "y \<le> of_int n \<Longrightarrow> round_half_even y \<le> n"
proof (cases "y = of_int n")
  case True
  then show ?thesis by (simp add: rhe_of_int)
next
  case False
  assume "y \<le> of_int n"
  with False have "y < of_int n" by simp
  then have "\<lfloor>y\<rfloor> < n" by (simp add: floor_less_iff)
  with rhe_cases [of y] show ?thesis by linarith
qed

lemma rhe_ge_int: "of_int n \<le> y \<Longrightarrow> n \<le> round_half_even y"
proof -
  assume "of_int n \<le> y"
  then have "n \<le> \<lfloor>y\<rfloor>" by (simp add: le_floor_iff)
  with rhe_cases [of y] show ?thesis by linarith
qed

lemma quantum_pos: "0 < quantum x"
  by (simp add: quantum_def)

lemma max_double_ge: "2 powi 1023 \<le> max_double"
  by (simp add: max_double_def)

lemma rtd_nonneg: "0 \<le> x \<Longrightarrow> 0 \<le> round_to_double x"
proof -
  assume x: "0 \<le> x"
  have "0 \<le> x / quantum x"
    using x quantum_pos [of x] by simp
  then have "of_int 0 \<le> x / quantum x" by simp
  then have "0 \<le> round_half_even (x / quantum x)" by (rule rhe_ge_int)
  then show ?thesis
    using quantum_pos [of x] by (simp add: round_to_double_def)
qed

text \<open>The exponent of a real between two neighbouring powers of two.\<close>

lemma exponent_eqI:
  assumes "2 powi e \<le> \<bar>x\<bar>" and "\<bar>x\<bar> < 2 powi (e + 1)" and "- 1022 \<le> e"
  shows "exponent x = e"
proof -
  have pos: "0 < \<bar>x\<bar>"
    using assms(1) by (smt (verit) zero_less_power_int)
  have a: "2 powr (real_of_int e) = 2 powi e"
    using powr_real_of_int' [of 2 e] by simp
  have b: "2 powr (real_of_int e + 1) = 2 powi (e + 1)"
    using powr_real_of_int' [of 2 "e + 1"] by simp
  have "\<lfloor>log 2 \<bar>x\<bar>\<rfloor> = e"
    using assms(1,2) pos by (simp add: floor_log_eq_powr_iff a b)
  with assms(3) show ?thesis by (simp add: exponent_def)
qed

text \<open>How a real in the normal range rounds: with its exponent \<open>e\<close> found, the multiple
  \<open>m\<close> of the spacing is a rounding of a quotient.\<close>

lemma fl_eqI:
  assumes "2 powi e \<le> \<bar>x\<bar>" and "\<bar>x\<bar> < 2 powi (e + 1)" and "- 1022 \<le> e" and "e \<le> 1022"
    and "round_half_even (x / 2 powi (e - 52)) = m"
    and "of_int m * 2 powi (e - 52) = r"
  shows "fl x = Fin r"
proof -
  have e: "exponent x = e"
    using assms(1-3) by (rule exponent_eqI)
  have nz: "x \<noteq> 0"
    using assms(1) by (smt (verit) zero_less_power_int)
  have r: "round_to_double x = r"
    using nz assms(5,6) by (simp add: round_to_double_def quantum_def e)
  have q: "0 < (2::real) powi (e - 52)" by simp
  have "\<bar>x\<bar> / 2 powi (e - 52) < 2 powi (e + 1) / 2 powi (e - 52)"
    using assms(2) q by (simp add: divide_strict_right_mono)
  also have "(2::real) powi (e + 1) / 2 powi (e - 52) = 2 powi ((e + 1) - (e - 52))"
    by (rule power_int_diff [symmetric]) simp
  also have "(e + 1) - (e - 52) = 53"
    by simp
  finally have up: "\<bar>x\<bar> / 2 powi (e - 52) \<le> of_int (2 ^ 53)"
    by simp
  have "x / 2 powi (e - 52) \<le> of_int (2 ^ 53)" and "of_int (- (2 ^ 53)) \<le> x / 2 powi (e - 52)"
    using up q by (auto simp add: abs_le_iff field_simps)
  then have "m \<le> 2 ^ 53" and "- (2 ^ 53) \<le> m"
    using rhe_le_int rhe_ge_int assms(5) by blast+
  then have "real_of_int m \<le> real_of_int (2 ^ 53)"
    and "real_of_int (- (2 ^ 53)) \<le> real_of_int m"
    by (simp_all only: of_int_le_iff)
  then have m: "\<bar>real_of_int m\<bar> \<le> 2 powi 53"
    by simp
  have "\<bar>r\<bar> = \<bar>real_of_int m\<bar> * 2 powi (e - 52)"
    unfolding assms(6) [symmetric] by (simp add: abs_mult)
  also have "\<dots> \<le> 2 powi 53 * 2 powi (e - 52)"
    using m q by (intro mult_right_mono) simp_all
  also have "\<dots> = 2 powi (53 + (e - 52))"
    by (rule power_int_add [symmetric]) simp
  also have "53 + (e - 52) = e + 1"
    by simp
  also have "(2::real) powi (e + 1) \<le> 2 powi 1023"
    using assms(4) by (intro power_int_increasing) simp_all
  also have "\<dots> \<le> max_double"
    by (rule max_double_ge)
  finally have "\<bar>r\<bar> \<le> max_double" .
  then show ?thesis
    unfolding fl_def Let_def r by (simp add: abs_le_iff)
qed

lemma fl_0: "fl 0 = Fin 0"
  by (simp add: fl_def round_to_double_def max_double_def)

text \<open>Rounding keeps the sign: a real that is not negative rounds to a finite number that
  is not negative, or to the positive infinity.\<close>

lemma fl_nonneg:
  assumes "0 \<le> x"
  shows "fl x = PInf \<or> (\<exists>r. fl x = Fin r \<and> 0 \<le> r)"
proof -
  have "0 \<le> round_to_double x"
    using assms by (rule rtd_nonneg)
  moreover have "0 < max_double"
    using max_double_ge by (smt (verit) zero_less_power_int)
  ultimately show ?thesis
    by (simp add: fl_def Let_def)
qed

text \<open>Rounding never crosses an integer below \<open>2 powi 52\<close>: a real between 0 and such an
  integer rounds to a finite number between them.\<close>

lemma fl_range:
  assumes "0 \<le> x" and "x \<le> of_int n" and "real_of_int n \<le> 2 powi 52"
  shows "\<exists>r. fl x = Fin r \<and> 0 \<le> r \<and> r \<le> of_int n"
proof (cases "x = 0")
  case True
  with assms(1,2) show ?thesis by (simp add: fl_0)
next
  case False
  with assms(1) have pos: "0 < x" by simp
  have "x \<le> 2 powr 52"
    using assms(2,3) by (simp add: powr_realpow)
  then have "log 2 x \<le> 52"
    using pos by (simp add: log_le_iff)
  then have "\<lfloor>log 2 x\<rfloor> \<le> 52"
    by (simp add: floor_le_iff)
  then have e: "exponent x \<le> 52"
    using pos by (simp add: exponent_def)
  define k where "k = nat (52 - exponent x)"
  have ek: "exponent x - 52 = - int k"
    using e by (simp add: k_def)
  have q: "quantum x = inverse (2 ^ k)"
    by (simp add: quantum_def ek power_int_minus)
  have "x / quantum x = x * 2 ^ k"
    by (simp add: q divide_inverse)
  also have "\<dots> \<le> of_int n * 2 ^ k"
    using assms(2) by (simp add: mult_right_mono)
  also have "\<dots> = of_int (n * 2 ^ k)"
    by simp
  finally have "round_half_even (x / quantum x) \<le> n * 2 ^ k"
    by (rule rhe_le_int)
  then have "real_of_int (round_half_even (x / quantum x)) \<le> real_of_int (n * 2 ^ k)"
    by (simp only: of_int_le_iff)
  then have "real_of_int (round_half_even (x / quantum x)) * quantum x
      \<le> real_of_int (n * 2 ^ k) * quantum x"
    using quantum_pos [of x] by (simp add: mult_right_mono)
  also have "real_of_int (n * 2 ^ k) * quantum x = of_int n"
    by (simp add: q)
  finally have up: "round_to_double x \<le> of_int n"
    using False by (simp add: round_to_double_def)
  have lo: "0 \<le> round_to_double x"
    using assms(1) by (rule rtd_nonneg)
  have "real_of_int n \<le> max_double"
    using assms(3) max_double_ge
    by (smt (verit) power_int_increasing)
  with up lo have "fl x = Fin (round_to_double x)"
    by (simp add: fl_def Let_def)
  with up lo show ?thesis by simp
qed

text \<open>A real of magnitude \<open>2 powi 1024\<close> or more rounds to an infinity.\<close>

lemma exponent_large:
  assumes "2 powi 1024 \<le> \<bar>x\<bar>"
  shows "1024 \<le> exponent x" and "2 powi (exponent x) \<le> \<bar>x\<bar>"
proof -
  have pos: "0 < \<bar>x\<bar>"
    using assms by (smt (verit) zero_less_power_int)
  have "2 powr (real_of_int 1024) = 2 powi 1024"
    by (rule powr_real_of_int') simp_all
  then have "2 powr (real_of_int 1024) \<le> \<bar>x\<bar>"
    using assms by simp
  then have "real_of_int 1024 \<le> log 2 \<bar>x\<bar>"
    using pos by (simp only: le_log_iff) 
  then have l: "1024 \<le> \<lfloor>log 2 \<bar>x\<bar>\<rfloor>"
    by (simp only: le_floor_iff)
  then have e: "exponent x = \<lfloor>log 2 \<bar>x\<bar>\<rfloor>"
    by (simp add: exponent_def)
  from l e show "1024 \<le> exponent x" by simp
  have "real_of_int \<lfloor>log 2 \<bar>x\<bar>\<rfloor> \<le> log 2 \<bar>x\<bar>"
    by (rule of_int_floor_le)
  then have "2 powr (real_of_int \<lfloor>log 2 \<bar>x\<bar>\<rfloor>) \<le> \<bar>x\<bar>"
    using pos by (simp only: le_log_iff [symmetric, of 2]) 
  moreover have "2 powr (real_of_int \<lfloor>log 2 \<bar>x\<bar>\<rfloor>) = 2 powi \<lfloor>log 2 \<bar>x\<bar>\<rfloor>"
    by (rule powr_real_of_int') simp_all
  ultimately show "2 powi (exponent x) \<le> \<bar>x\<bar>"
    by (simp add: e)
qed

lemma max_double_less: "max_double < 2 powi 1024"
proof -
  have "max_double < 2 * 2 powi 1023"
    by (simp add: max_double_def)
  also have "2 * (2::real) powi 1023 = 2 powi 1 * 2 powi 1023"
    by simp
  also have "\<dots> = 2 powi (1 + 1023)"
    by (rule power_int_add [symmetric]) simp
  finally show ?thesis by simp
qed

lemma quantum_times: "2 powi 52 * quantum x = 2 powi (exponent x)"
proof -
  have "2 powi 52 * quantum x = 2 powi (52 + (exponent x - 52))"
    unfolding quantum_def by (rule power_int_add [symmetric]) simp
  then show ?thesis by simp
qed

lemma fl_overflow:
  "2 powi 1024 \<le> x \<Longrightarrow> fl x = PInf"
  "x \<le> - (2 powi 1024) \<Longrightarrow> fl x = NInf"
proof -
  assume h: "2 powi 1024 \<le> x"
  then have pos: "0 < x"
    by (smt (verit) zero_less_power_int)
  with h have a: "2 powi 1024 \<le> \<bar>x\<bar>" by simp
  have "2 powi (exponent x) \<le> x"
    using exponent_large(2) [OF a] pos by simp
  then have "2 powi 52 * quantum x \<le> x"
    by (simp only: quantum_times)
  then have "real_of_int (2 ^ 52) \<le> x / quantum x"
    using quantum_pos [of x] by (simp add: pos_le_divide_eq)
  then have "2 ^ 52 \<le> round_half_even (x / quantum x)"
    by (rule rhe_ge_int)
  then have "real_of_int (2 ^ 52) \<le> real_of_int (round_half_even (x / quantum x))"
    by (simp only: of_int_le_iff)
  then have "real_of_int (2 ^ 52) * quantum x
      \<le> real_of_int (round_half_even (x / quantum x)) * quantum x"
    using quantum_pos [of x] by (simp only: mult_le_cancel_right_pos)
  moreover have "real_of_int (2 ^ 52) * quantum x = 2 powi (exponent x)"
    using quantum_times [of x] by simp
  moreover have "(2::real) powi 1024 \<le> 2 powi (exponent x)"
    using exponent_large(1) [OF a] by (intro power_int_increasing) simp_all
  ultimately have "2 powi 1024 \<le> round_to_double x"
    using pos by (simp add: round_to_double_def)
  with max_double_less have "max_double < round_to_double x"
    by linarith
  then show "fl x = PInf"
    by (simp add: fl_def Let_def)
next
  assume h: "x \<le> - (2 powi 1024)"
  then have neg: "x < 0"
    by (smt (verit) zero_less_power_int)
  with h have a: "2 powi 1024 \<le> \<bar>x\<bar>" by simp
  have "2 powi (exponent x) \<le> - x"
    using exponent_large(2) [OF a] neg by simp
  then have "2 powi 52 * quantum x \<le> - x"
    by (simp only: quantum_times)
  then have "x / quantum x \<le> real_of_int (- (2 ^ 52))"
    using quantum_pos [of x] by (simp add: pos_divide_le_eq)
  then have "round_half_even (x / quantum x) \<le> - (2 ^ 52)"
    by (rule rhe_le_int)
  then have "real_of_int (round_half_even (x / quantum x)) \<le> real_of_int (- (2 ^ 52))"
    by (simp only: of_int_le_iff)
  then have "real_of_int (round_half_even (x / quantum x)) * quantum x
      \<le> real_of_int (- (2 ^ 52)) * quantum x"
    using quantum_pos [of x] by (simp only: mult_le_cancel_right_pos)
  moreover have "real_of_int (- (2 ^ 52)) * quantum x = - (2 powi (exponent x))"
    using quantum_times [of x] by simp
  moreover have "(2::real) powi 1024 \<le> 2 powi (exponent x)"
    using exponent_large(1) [OF a] by (intro power_int_increasing) simp_all
  ultimately have "round_to_double x \<le> - (2 powi 1024)"
    using neg by (simp add: round_to_double_def)
  with max_double_less have "round_to_double x < - max_double"
    by linarith
  moreover have "\<not> max_double < round_to_double x"
    using \<open>round_to_double x < - max_double\<close> max_double_ge
    by (smt (verit) zero_less_power_int)
  ultimately show "fl x = NInf"
    by (simp add: fl_def Let_def)
qed

text \<open>\<^verbatim>\<open>NaN\<close> spreads through sums and products.\<close>

lemma fadd_NaN [simp]: "fadd x NaN = NaN" "fadd NaN x = NaN"
  by (cases x; simp)+

lemma fmul_NaN [simp]: "fmul x NaN = NaN" "fmul NaN x = NaN"
  by (cases x; simp)+

text \<open>Products and sums of numbers that are not negative are not negative, or the
  positive infinity.\<close>

lemma fmul_nonneg:
  assumes "nonneg_finite a" and "nonneg_finite b"
  shows "fmul a b = PInf \<or> nonneg_finite (fmul a b)"
proof -
  obtain x y where "a = Fin x" "b = Fin y" "0 \<le> x" "0 \<le> y"
    using assms by (cases a; cases b; simp)
  then show ?thesis
    using fl_nonneg [of "x * y"] by auto
qed

lemma fadd_nonneg:
  assumes "a = PInf \<or> nonneg_finite a" and "b = PInf \<or> nonneg_finite b"
  shows "fadd a b = PInf \<or> nonneg_finite (fadd a b)"
proof (cases a)
  case (Fin x)
  show ?thesis
  proof (cases b)
    case (Fin y)
    with \<open>a = Fin x\<close> assms have "0 \<le> x + y" by simp
    then show ?thesis
      using fl_nonneg [of "x + y"] \<open>a = Fin x\<close> Fin by auto
  qed (use assms Fin in simp_all)
qed (use assms in \<open>cases b; simp_all\<close>)+

text \<open>The clamp of line 22 on each kind of number.\<close>

lemma clamp_Fin: "clamp (Fin x) (Fin 0) (Fin 100) = Fin (clamp_0_100 x)"
  by (simp add: clamp_def Math_max_def Math_min_def clamp_0_100_def)

lemma clamp_not_finite:
  "clamp PInf (Fin 0) (Fin 100) = Fin 100"
  "clamp NInf (Fin 0) (Fin 100) = Fin 0"
  "clamp NaN (Fin 0) (Fin 100) = NaN"
  by (simp_all add: clamp_def Math_max_def Math_min_def)

lemma clamp_0_100_floor:
  "\<exists>n. clamp_0_100 (of_int m) = of_int n \<and> 0 \<le> n \<and> n \<le> 100"
proof -
  have "clamp_0_100 (of_int m) = of_int (max 0 (min 100 m))"
    by (simp add: clamp_0_100_def)
  then show ?thesis by (intro exI [of _ "max 0 (min 100 m)"]) simp
qed

section \<open>Binary64 operations on the sample inputs\<close>

text \<open>Each step below rounds one exact result, with its exponent and the multiple of
  the spacing given.\<close>

lemma b64_lit_1:
  "fl 0.28 = Fin (1261007895663739 / 4503599627370496)"
  by (rule fl_eqI [where e = "- 2" and m = 5044031582654956]) (simp_all add: round_half_even_def Let_def)

lemma b64_lit_2:
  "fl 0.22 = Fin (7926335344172073 / 36028797018963968)"
  by (rule fl_eqI [where e = "- 3" and m = 7926335344172073]) (simp_all add: round_half_even_def Let_def)

lemma b64_lit_3:
  "fl 0.18 = Fin (3242591731706757 / 18014398509481984)"
  by (rule fl_eqI [where e = "- 3" and m = 6485183463413514]) (simp_all add: round_half_even_def Let_def)

lemma b64_lit_4:
  "fl 0.12 = Fin (1080863910568919 / 9007199254740992)"
  by (rule fl_eqI [where e = "- 4" and m = 8646911284551352]) (simp_all add: round_half_even_def Let_def)

lemma b64_lit_5:
  "fl 0.08 = Fin (5764607523034235 / 72057594037927936)"
  by (rule fl_eqI [where e = "- 4" and m = 5764607523034235]) (simp_all add: round_half_even_def Let_def)

lemma b64_fdiv_6:
  "fdiv (Fin (5 / 2)) (Fin 5) = Fin (1 / 2)"
  by (simp, rule fl_eqI [where e = "- 1" and m = 4503599627370496])
    (simp_all add: round_half_even_def Let_def)

lemma b64_fmul_7:
  "fmul (Fin (1 / 2)) (Fin 100) = Fin 50"
  by (simp, rule fl_eqI [where e = 5 and m = 7036874417766400])
    (simp_all add: round_half_even_def Let_def)

lemma b64_fsub_8:
  "fsub (Fin 100) (Fin 50) = Fin 50"
  by (simp add: fsub_def, rule fl_eqI [where e = 5 and m = 7036874417766400])
    (simp_all add: round_half_even_def Let_def)

lemma b64_fdiv_9:
  "fdiv (Fin (15 / 4)) (Fin 5) = Fin (3 / 4)"
  by (simp, rule fl_eqI [where e = "- 1" and m = 6755399441055744])
    (simp_all add: round_half_even_def Let_def)

lemma b64_fmul_10:
  "fmul (Fin (3 / 4)) (Fin 100) = Fin 75"
  by (simp, rule fl_eqI [where e = 6 and m = 5277655813324800])
    (simp_all add: round_half_even_def Let_def)

lemma b64_fsub_11:
  "fsub (Fin 100) (Fin 75) = Fin 25"
  by (simp add: fsub_def, rule fl_eqI [where e = 4 and m = 7036874417766400])
    (simp_all add: round_half_even_def Let_def)

lemma b64_fmul_12:
  "fmul (Fin 50) (Fin (1261007895663739 / 4503599627370496)) = Fin (7881299347898369 / 562949953421312)"
  by (simp, rule fl_eqI [where e = 3 and m = 7881299347898369])
    (simp_all add: round_half_even_def Let_def)

lemma b64_fmul_13:
  "fmul (Fin 25) (Fin (7926335344172073 / 36028797018963968)) = Fin (11 / 2)"
  by (simp, rule fl_eqI [where e = 2 and m = 6192449487634432])
    (simp_all add: round_half_even_def Let_def)

lemma b64_fmul_14:
  "fmul (Fin 30) (Fin (3242591731706757 / 18014398509481984)) = Fin (6079859496950169 / 1125899906842624)"
  by (simp, rule fl_eqI [where e = 2 and m = 6079859496950169])
    (simp_all add: round_half_even_def Let_def)

lemma b64_fmul_15:
  "fmul (Fin 10) (Fin (1080863910568919 / 9007199254740992)) = Fin (5404319552844595 / 4503599627370496)"
  by (simp, rule fl_eqI [where e = 0 and m = 5404319552844595])
    (simp_all add: round_half_even_def Let_def)

lemma b64_fmul_16:
  "fmul (Fin 40) (Fin (5764607523034235 / 72057594037927936)) = Fin (3602879701896397 / 1125899906842624)"
  by (simp, rule fl_eqI [where e = 1 and m = 7205759403792794])
    (simp_all add: round_half_even_def Let_def)

lemma b64_fadd_17:
  "fadd (Fin (7881299347898369 / 562949953421312)) (Fin (11 / 2)) = Fin (39 / 2)"
  by (simp, rule fl_eqI [where e = 4 and m = 5488762045857792])
    (simp_all add: round_half_even_def Let_def)

lemma b64_fadd_18:
  "fadd (Fin (39 / 2)) (Fin (6079859496950169 / 1125899906842624)) = Fin (3504363460047667 / 140737488355328)"
  by (simp, rule fl_eqI [where e = 4 and m = 7008726920095334])
    (simp_all add: round_half_even_def Let_def)

lemma b64_fadd_19:
  "fadd (Fin (3504363460047667 / 140737488355328)) (Fin (5404319552844595 / 4503599627370496)) = Fin (7346496892148121 / 281474976710656)"
  by (simp, rule fl_eqI [where e = 4 and m = 7346496892148121])
    (simp_all add: round_half_even_def Let_def)

lemma b64_fadd_20:
  "fadd (Fin (7346496892148121 / 281474976710656)) (Fin (5404319552844595 / 4503599627370496)) = Fin (1921066716050227 / 70368744177664)"
  by (simp, rule fl_eqI [where e = 4 and m = 7684266864200908])
    (simp_all add: round_half_even_def Let_def)

lemma b64_fadd_21:
  "fadd (Fin (1921066716050227 / 70368744177664)) (Fin (3602879701896397 / 1125899906842624)) = Fin (8584986789675007 / 281474976710656)"
  by (simp, rule fl_eqI [where e = 4 and m = 8584986789675007])
    (simp_all add: round_half_even_def Let_def)

lemma b64_fdiv_22:
  "fdiv (Fin 5) (Fin 5) = Fin 1"
  by (simp, rule fl_eqI [where e = 0 and m = 4503599627370496])
    (simp_all add: round_half_even_def Let_def)

lemma b64_fmul_23:
  "fmul (Fin 1) (Fin 100) = Fin 100"
  by (simp, rule fl_eqI [where e = 6 and m = 7036874417766400])
    (simp_all add: round_half_even_def Let_def)

lemma b64_fsub_24:
  "fsub (Fin 100) (Fin 100) = Fin 0"
  by (simp add: fsub_def fl_0)

lemma b64_fmul_25:
  "fmul (Fin 0) (Fin (1261007895663739 / 4503599627370496)) = Fin 0"
  by (simp add: fl_0)

lemma b64_fmul_26:
  "fmul (Fin 0) (Fin (7926335344172073 / 36028797018963968)) = Fin 0"
  by (simp add: fl_0)

lemma b64_fmul_27:
  "fmul (Fin 10) (Fin (3242591731706757 / 18014398509481984)) = Fin (2026619832316723 / 1125899906842624)"
  by (simp, rule fl_eqI [where e = 0 and m = 8106479329266892])
    (simp_all add: round_half_even_def Let_def)

lemma b64_fmul_28:
  "fmul (Fin 20) (Fin (5764607523034235 / 72057594037927936)) = Fin (3602879701896397 / 2251799813685248)"
  by (simp, rule fl_eqI [where e = 0 and m = 7205759403792794])
    (simp_all add: round_half_even_def Let_def)

lemma b64_fadd_29:
  "fadd (Fin 0) (Fin 0) = Fin 0"
  by (simp add: fl_0)

lemma b64_fadd_30:
  "fadd (Fin 0) (Fin (2026619832316723 / 1125899906842624)) = Fin (2026619832316723 / 1125899906842624)"
  by (simp, rule fl_eqI [where e = 0 and m = 8106479329266892])
    (simp_all add: round_half_even_def Let_def)

lemma b64_fadd_31:
  "fadd (Fin (2026619832316723 / 1125899906842624)) (Fin (5404319552844595 / 4503599627370496)) = Fin 3"
  by (simp, rule fl_eqI [where e = 1 and m = 6755399441055744])
    (simp_all add: round_half_even_def Let_def)

lemma b64_fadd_32:
  "fadd (Fin 3) (Fin (5404319552844595 / 4503599627370496)) = Fin (4728779608739021 / 1125899906842624)"
  by (simp, rule fl_eqI [where e = 2 and m = 4728779608739021])
    (simp_all add: round_half_even_def Let_def)

lemma b64_fadd_33:
  "fadd (Fin (4728779608739021 / 1125899906842624)) (Fin (3602879701896397 / 2251799813685248)) = Fin (1632554864921805 / 281474976710656)"
  by (simp, rule fl_eqI [where e = 2 and m = 6530219459687220])
    (simp_all add: round_half_even_def Let_def)

lemma b64_fdiv_34:
  "fdiv (Fin 6) (Fin 5) = Fin (5404319552844595 / 4503599627370496)"
  by (simp, rule fl_eqI [where e = 0 and m = 5404319552844595])
    (simp_all add: round_half_even_def Let_def)

lemma b64_fmul_35:
  "fmul (Fin (5404319552844595 / 4503599627370496)) (Fin 100) = Fin 120"
  by (simp, rule fl_eqI [where e = 6 and m = 8444249301319680])
    (simp_all add: round_half_even_def Let_def)

lemma b64_fsub_36:
  "fsub (Fin 100) (Fin 120) = Fin (- 20)"
  by (simp add: fsub_def, rule fl_eqI [where e = 4 and m = "- 5629499534213120"])
    (simp_all add: round_half_even_def Let_def)

lemma b64_fdiv_37:
  "fdiv (Fin (- 1)) (Fin 5) = Fin (- (3602879701896397 / 18014398509481984))"
  by (simp, rule fl_eqI [where e = "- 3" and m = "- 7205759403792794"])
    (simp_all add: round_half_even_def Let_def)

lemma b64_fmul_38:
  "fmul (Fin (- (3602879701896397 / 18014398509481984))) (Fin 100) = Fin (- 20)"
  by (simp, rule fl_eqI [where e = 4 and m = "- 5629499534213120"])
    (simp_all add: round_half_even_def Let_def)

lemma b64_fsub_39:
  "fsub (Fin 100) (Fin (- 20)) = Fin 120"
  by (simp add: fsub_def, rule fl_eqI [where e = 6 and m = 8444249301319680])
    (simp_all add: round_half_even_def Let_def)

lemma b64_fdiv_40:
  "fdiv (Fin 4) (Fin 5) = Fin (3602879701896397 / 4503599627370496)"
  by (simp, rule fl_eqI [where e = "- 1" and m = 7205759403792794])
    (simp_all add: round_half_even_def Let_def)

lemma b64_fmul_41:
  "fmul (Fin (3602879701896397 / 4503599627370496)) (Fin 100) = Fin 80"
  by (simp, rule fl_eqI [where e = 6 and m = 5629499534213120])
    (simp_all add: round_half_even_def Let_def)

lemma b64_fsub_42:
  "fsub (Fin 100) (Fin 80) = Fin 20"
  by (simp add: fsub_def, rule fl_eqI [where e = 4 and m = 5629499534213120])
    (simp_all add: round_half_even_def Let_def)

lemma b64_fdiv_43:
  "fdiv (Fin 3) (Fin 5) = Fin (5404319552844595 / 9007199254740992)"
  by (simp, rule fl_eqI [where e = "- 1" and m = 5404319552844595])
    (simp_all add: round_half_even_def Let_def)

lemma b64_fmul_44:
  "fmul (Fin (5404319552844595 / 9007199254740992)) (Fin 100) = Fin 60"
  by (simp, rule fl_eqI [where e = 5 and m = 8444249301319680])
    (simp_all add: round_half_even_def Let_def)

lemma b64_fsub_45:
  "fsub (Fin 100) (Fin 60) = Fin 40"
  by (simp add: fsub_def, rule fl_eqI [where e = 5 and m = 5629499534213120])
    (simp_all add: round_half_even_def Let_def)

lemma b64_fdiv_46:
  "fdiv (Fin (49 / 8)) (Fin 5) = Fin (2758454771764429 / 2251799813685248)"
  by (simp, rule fl_eqI [where e = 0 and m = 5516909543528858])
    (simp_all add: round_half_even_def Let_def)

lemma b64_fmul_47:
  "fmul (Fin (2758454771764429 / 2251799813685248)) (Fin 100) = Fin (8620171161763841 / 70368744177664)"
  by (simp, rule fl_eqI [where e = 6 and m = 8620171161763841])
    (simp_all add: round_half_even_def Let_def)

lemma b64_fsub_48:
  "fsub (Fin 100) (Fin (8620171161763841 / 70368744177664)) = Fin (- (1583296743997441 / 70368744177664))"
  by (simp add: fsub_def, rule fl_eqI [where e = 4 and m = "- 6333186975989764"])
    (simp_all add: round_half_even_def Let_def)

lemma b64_fdiv_49:
  "fdiv (Fin (- (1 / 1152921504606846976))) (Fin 5) = Fin (- (3602879701896397 / 20769187434139310514121985316880384))"
  by (simp, rule fl_eqI [where e = "- 63" and m = "- 7205759403792794"])
    (simp_all add: round_half_even_def Let_def)

lemma b64_fmul_50:
  "fmul (Fin (- (3602879701896397 / 20769187434139310514121985316880384))) (Fin 100) = Fin (- (5 / 288230376151711744))"
  by (simp, rule fl_eqI [where e = "- 56" and m = "- 5629499534213120"])
    (simp_all add: round_half_even_def Let_def)

lemma b64_fsub_51:
  "fsub (Fin 100) (Fin (- (5 / 288230376151711744))) = Fin 100"
  by (simp add: fsub_def, rule fl_eqI [where e = 6 and m = 7036874417766400])
    (simp_all add: round_half_even_def Let_def)

lemma b64_fdiv_52:
  "fdiv (Fin 0) (Fin 5) = Fin 0"
  by (simp add: fl_0)

lemma b64_fmul_53:
  "fmul (Fin 0) (Fin 100) = Fin 0"
  by (simp add: fl_0)

lemma b64_fsub_54:
  "fsub (Fin 100) (Fin 0) = Fin 100"
  by (simp add: fsub_def, rule fl_eqI [where e = 6 and m = 7036874417766400])
    (simp_all add: round_half_even_def Let_def)

lemmas binary64_steps =
  b64_lit_1 b64_lit_2 b64_lit_3 b64_lit_4 b64_lit_5 b64_fdiv_6 b64_fmul_7 b64_fsub_8
  b64_fdiv_9 b64_fmul_10 b64_fsub_11 b64_fmul_12 b64_fmul_13 b64_fmul_14 b64_fmul_15
  b64_fmul_16 b64_fadd_17 b64_fadd_18 b64_fadd_19 b64_fadd_20 b64_fadd_21 b64_fdiv_22
  b64_fmul_23 b64_fsub_24 b64_fmul_25 b64_fmul_26 b64_fmul_27 b64_fmul_28 b64_fadd_29
  b64_fadd_30 b64_fadd_31 b64_fadd_32 b64_fadd_33 b64_fdiv_34 b64_fmul_35 b64_fsub_36
  b64_fdiv_37 b64_fmul_38 b64_fsub_39 b64_fdiv_40 b64_fmul_41 b64_fsub_42 b64_fdiv_43
  b64_fmul_44 b64_fsub_45 b64_fdiv_46 b64_fmul_47 b64_fsub_48 b64_fdiv_49 b64_fmul_50
  b64_fsub_51 b64_fdiv_52 b64_fmul_53 b64_fsub_54

section \<open>Properties of the factors, the score and the tier\<close>

lemma raw_score_float_dot: "raw_score d w = float_dot (factor_list d) (weight_list w)"
  by (simp add: raw_score_def float_dot_def factor_list_def weight_list_def)

lemma score_of_cases:
  "raw_score d w = Fin x \<Longrightarrow> score_of d w = Fin (clamp_0_100 (nearest_integer x))"
  "raw_score d w = PInf \<Longrightarrow> score_of d w = Fin 100"
  "raw_score d w = NInf \<Longrightarrow> score_of d w = Fin 0"
  "raw_score d w = NaN \<Longrightarrow> score_of d w = NaN"
  by (simp_all add: score_of_def clamp_Fin clamp_not_finite nearest_integer_def)

lemma score_of_integer:
  assumes "raw_score d w \<noteq> NaN"
  shows "\<exists>n::int. score_of d w = Fin (of_int n) \<and> 0 \<le> n \<and> n \<le> 100"
proof (cases "raw_score d w")
  case (Fin x)
  then have "score_of d w = Fin (clamp_0_100 (of_int \<lfloor>x + 1 / 2\<rfloor>))"
    by (simp add: score_of_cases nearest_integer_def)
  with clamp_0_100_floor [of "\<lfloor>x + 1 / 2\<rfloor>"] show ?thesis by auto
next
  case PInf
  then have "score_of d w = Fin (of_int 100)" by (simp add: score_of_cases)
  then show ?thesis by (intro exI [of _ 100]) simp
next
  case NInf
  then have "score_of d w = Fin (of_int 0)" by (simp add: score_of_cases)
  then show ?thesis by (intro exI [of _ 0]) simp
next
  case NaN
  with assms show ?thesis by simp
qed

lemma raw_score_not_NaN:
  assumes "list_all nonneg_finite (factor_list d)" and "list_all nonneg_finite (weight_list w)"
  shows "raw_score d w \<noteq> NaN"
proof -
  let ?ok = "\<lambda>x. x = PInf \<or> nonneg_finite x"
  have f: "nonneg_finite (skillsRisk d)" "nonneg_finite (performanceRisk d)"
    "nonneg_finite (networkRisk d)" "nonneg_finite (mobilityRisk d)"
    "nonneg_finite (noticeRisk d)" "nonneg_finite (plateauRisk d)"
    using assms(1) by (simp_all add: factor_list_def)
  have g: "nonneg_finite (skills w)" "nonneg_finite (performance w)"
    "nonneg_finite (network w)" "nonneg_finite (mobility w)"
    "nonneg_finite (notice w)" "nonneg_finite (plateau w)"
    using assms(2) by (simp_all add: weight_list_def)
  have p1: "?ok (fmul (skillsRisk d) (skills w))"
    and p2: "?ok (fmul (performanceRisk d) (performance w))"
    and p3: "?ok (fmul (networkRisk d) (network w))"
    and p4: "?ok (fmul (mobilityRisk d) (mobility w))"
    and p5: "?ok (fmul (noticeRisk d) (notice w))"
    and p6: "?ok (fmul (plateauRisk d) (plateau w))"
    using f g by (simp_all only: fmul_nonneg)
  note s2 = fadd_nonneg [OF p1 p2]
  note s3 = fadd_nonneg [OF s2 p3]
  note s4 = fadd_nonneg [OF s3 p4]
  note s5 = fadd_nonneg [OF s4 p5]
  note s6 = fadd_nonneg [OF s5 p6]
  have "?ok (raw_score d w)"
    unfolding raw_score_def by (rule s6)
  then show ?thesis by auto
qed

subsection \<open>The sample profiles in binary64\<close>

lemma default_weights_members:
  "read_weights h DEFAULT_WEIGHTS =
     \<lparr> skills = fl 0.28, performance = fl 0.22, network = fl 0.18,
       mobility = fl 0.12, notice = fl 0.12, plateau = fl 0.08 \<rparr>"
  by (simp add: read_weights_def DEFAULT_WEIGHTS_def to_number_def lit_def)

lemma default_weights_values:
  "read_weights h DEFAULT_WEIGHTS =
     \<lparr> skills = Fin (1261007895663739 / 4503599627370496),
       performance = Fin (7926335344172073 / 36028797018963968),
       network = Fin (3242591731706757 / 18014398509481984),
       mobility = Fin (1080863910568919 / 9007199254740992),
       notice = Fin (1080863910568919 / 9007199254740992),
       plateau = Fin (5764607523034235 / 72057594037927936) \<rparr>"
  by (simp only: default_weights_members binary64_steps)

lemma constant_factors:
  "networkRisk_of tie_payload = 30" "mobilityRisk_of tie_payload = 10"
  "noticeRisk_of tie_payload = 10" "plateauRisk_of tie_payload = 40"
  "networkRisk_of sample_payload = 10" "mobilityRisk_of sample_payload = 10"
  "noticeRisk_of sample_payload = 10" "plateauRisk_of sample_payload = 20"
  by (simp_all add: networkRisk_of_def mobilityRisk_of_def noticeRisk_of_def notice_days_def
      plateauRisk_of_def networkMap_def tie_payload_def sample_payload_def lit_def en_dash_def)

lemma samples_inherit_nothing:
  "\<not> inherits_member tie_payload" "\<not> inherits_member sample_payload"
  by (simp_all add: inherits_member_def Object_prototype_names_def tie_payload_def
      sample_payload_def lit_def en_dash_def)

lemma tie_factors:
  "compute_factors tie_payload =
     \<lparr> skillsRisk = Fin 50, performanceRisk = Fin 25, networkRisk = Fin 30,
       mobilityRisk = Fin 10, noticeRisk = Fin 10, plateauRisk = Fin 40 \<rparr>"
proof -
  have "skillProficiencyAvg tie_payload = 5 / 2" and "performanceRating tie_payload = 15 / 4"
    by (simp_all add: tie_payload_def)
  then have "skillsRisk_of tie_payload = Fin 50" and "performanceRisk_of tie_payload = Fin 25"
    unfolding skillsRisk_of_def performanceRisk_of_def by (simp_all only: binary64_steps)
  then show ?thesis
    by (simp add: compute_factors_def constant_factors samples_inherit_nothing)
qed

lemma sample_factors:
  "compute_factors sample_payload =
     \<lparr> skillsRisk = Fin 0, performanceRisk = Fin 0, networkRisk = Fin 10,
       mobilityRisk = Fin 10, noticeRisk = Fin 10, plateauRisk = Fin 20 \<rparr>"
proof -
  have "skillProficiencyAvg sample_payload = 5" and "performanceRating sample_payload = 5"
    by (simp_all add: sample_payload_def)
  then have "skillsRisk_of sample_payload = Fin 0" and "performanceRisk_of sample_payload = Fin 0"
    unfolding skillsRisk_of_def performanceRisk_of_def by (simp_all only: binary64_steps)
  then show ?thesis
    by (simp add: compute_factors_def constant_factors samples_inherit_nothing)
qed

lemma tie_raw:
  "raw_score (compute_factors tie_payload) (read_weights h DEFAULT_WEIGHTS)
     = Fin (8584986789675007 / 281474976710656)"
  by (simp only: raw_score_def tie_factors default_weights_values risk_details.select_convs
      weights.select_convs binary64_steps)

lemma sample_raw:
  "raw_score (compute_factors sample_payload) (read_weights h DEFAULT_WEIGHTS)
     = Fin (1632554864921805 / 281474976710656)"
  by (simp only: raw_score_def sample_factors default_weights_values risk_details.select_convs
      weights.select_convs binary64_steps)

lemma tie_score: "score_of (compute_factors tie_payload) (read_weights h DEFAULT_WEIGHTS) = Fin 30"
  by (simp add: score_of_cases(1) [OF tie_raw] nearest_integer_def clamp_0_100_def)

lemma sample_score:
  "score_of (compute_factors sample_payload) (read_weights h DEFAULT_WEIGHTS) = Fin 6"
  by (simp add: score_of_cases(1) [OF sample_raw] nearest_integer_def clamp_0_100_def)

lemma tie_exact:
  "exact_dot (compute_factors tie_payload) (read_weights h DEFAULT_WEIGHTS)
     = 1098878309078401065 / 36028797018963968"
  by (simp add: exact_dot_def dot_product_def factor_list_def weight_list_def tie_factors
      default_weights_values)

text \<open>The two products of the overflow sample lie beyond the largest finite value.\<close>

lemma overflow_raw: "raw_score overflow_details overflow_weights = NaN"
proof -
  have "(2::real) powi 1024 \<le> 2 ^ 1023 * 2"
    by simp
  then have p: "fl (2 ^ 1023 * 2) = PInf"
    by (rule fl_overflow)
  have "- (2 ^ 1023) * 2 \<le> - ((2::real) powi 1024)"
    by simp
  then have n: "fl (- (2 ^ 1023) * 2) = NInf"
    by (rule fl_overflow)
  from p n have "fmul (Fin (- (2 ^ 1023))) (Fin 2) = NInf" and "fmul (Fin (2 ^ 1023)) (Fin 2) = PInf"
    by (simp_all only: fmul.simps)
  then show ?thesis
    by (simp only: raw_score_def overflow_details_def overflow_weights_def
        risk_details.select_convs weights.select_convs fadd.simps fadd_NaN)
qed

section \<open>The score\<close>

text \<open>
  C1, as the specification states it: the raw score is the exact dot product of the six
  factors with their weights, and the final score is that dot product rounded to the
  nearest integer and clamped to \<open>[0,100]\<close>. The source adds rounded products in binary64.
  For the profile with proficiency 2.5, rating 3.75, the network size \<^verbatim>\<open>1,001-5,000\<close>,
  willing to relocate, no notice period and 12 years, under the default weights, the
  factors are 50, 25, 30, 10, 10 and 40; the sum the source computes is
  30.499999999999996 and its score is 30, while the exact dot product of the same six
  factors and six weights lies above 30.5 and its nearest integer is 31.
\<close>

theorem C1_exact_dot_product_counterexample:
  "raw_score (compute_factors tie_payload) (read_weights sample_host DEFAULT_WEIGHTS)
     = Fin (8584986789675007 / 281474976710656)
   \<and> exact_dot (compute_factors tie_payload) (read_weights sample_host DEFAULT_WEIGHTS)
     = 1098878309078401065 / 36028797018963968
   \<and> score_of (compute_factors tie_payload) (read_weights sample_host DEFAULT_WEIGHTS) = Fin 30
   \<and> clamp_0_100 (nearest_integer
        (exact_dot (compute_factors tie_payload) (read_weights sample_host DEFAULT_WEIGHTS))) = 31"
proof -
  have "clamp_0_100 (nearest_integer (1098878309078401065 / 36028797018963968)) = 31"
    by (simp add: nearest_integer_def clamp_0_100_def)
  then show ?thesis
    by (simp only: tie_raw tie_exact tie_score simp_thms)
qed

text \<open>
  C1, amended. For every factor set and every weight vector the raw score is the dot
  product of the six factors with their paired weights as binary64 arithmetic computes
  it: each product rounded, the products added in their order, each partial sum rounded.
  The final score is that sum rounded to the nearest integer (a tie going up) and then
  clamped to \<open>[0,100]\<close>; an infinite sum gives 100 or 0. When the factors and the weights
  are finite and not negative the sum is a number, and whenever the sum is a number the
  final score is an integer between 0 and 100 inclusive.
\<close>

theorem C1_score_is_rounded_clamped_binary64_sum:
  "raw_score d w = float_dot (factor_list d) (weight_list w)
   \<and> (\<forall>x. raw_score d w = Fin x \<longrightarrow> score_of d w = Fin (clamp_0_100 (nearest_integer x)))
   \<and> (raw_score d w = PInf \<longrightarrow> score_of d w = Fin 100)
   \<and> (raw_score d w = NInf \<longrightarrow> score_of d w = Fin 0)
   \<and> (list_all nonneg_finite (factor_list d) \<and> list_all nonneg_finite (weight_list w)
        \<longrightarrow> raw_score d w \<noteq> NaN)
   \<and> (raw_score d w \<noteq> NaN
        \<longrightarrow> (\<exists>n::int. score_of d w = Fin (of_int n) \<and> 0 \<le> n \<and> n \<le> 100))"
  using raw_score_float_dot [of d w] score_of_cases [of d w] raw_score_not_NaN [of d w]
    score_of_integer [of d w]
  by blast

theorem C1_score_is_rounded_clamped_binary64_sum_witness:
  "raw_score (compute_factors sample_payload) (read_weights sample_host DEFAULT_WEIGHTS)
     = Fin (1632554864921805 / 281474976710656)
   \<and> list_all nonneg_finite (factor_list (compute_factors sample_payload))
   \<and> list_all nonneg_finite (weight_list (read_weights sample_host DEFAULT_WEIGHTS))
   \<and> score_of (compute_factors sample_payload) (read_weights sample_host DEFAULT_WEIGHTS) = Fin 6
   \<and> (\<exists>n::int. score_of (compute_factors sample_payload) (read_weights sample_host DEFAULT_WEIGHTS)
          = Fin (of_int n) \<and> 0 \<le> n \<and> n \<le> 100)"
proof -
  let ?d = "compute_factors sample_payload"
  let ?w = "read_weights sample_host DEFAULT_WEIGHTS"
  note c1 = C1_score_is_rounded_clamped_binary64_sum [of ?d ?w]
  have r: "raw_score ?d ?w = Fin (1632554864921805 / 281474976710656)"
    by (rule sample_raw)
  have f: "list_all nonneg_finite (factor_list ?d)"
    by (simp add: factor_list_def sample_factors)
  have g: "list_all nonneg_finite (weight_list ?w)"
    by (simp add: weight_list_def default_weights_values)
  from c1 r have "score_of ?d ?w
      = Fin (clamp_0_100 (nearest_integer (1632554864921805 / 281474976710656)))"
    by blast
  then have s: "score_of ?d ?w = Fin 6"
    by (simp add: nearest_integer_def clamp_0_100_def)
  from c1 f g have "\<exists>n::int. score_of ?d ?w = Fin (of_int n) \<and> 0 \<le> n \<and> n \<le> 100"
    by blast
  with r f g s show ?thesis
    by blast
qed

text \<open>Two factors of opposite sign can overflow to opposite infinities; their sum is
  \<^verbatim>\<open>NaN\<close>, which rounding and the clamp leave as it is.\<close>

lemma overflow_score: "score_of overflow_details overflow_weights = NaN"
  by (simp add: score_of_cases(4) [OF overflow_raw])

section \<open>The tier\<close>

text \<open>
  C2. The tier is a total function of the final integer score: every score up to 30 is
  Low, every score from 31 to 60 is Medium, every score from 61 on is High; in particular
  30 is Low, 31 and 60 are Medium, 61 is High.
\<close>

theorem C2_tier_thresholds:
  fixes n :: int
  shows "(n \<le> 30 \<longrightarrow> tier_of (Fin (of_int n)) = lit ''Low'')
   \<and> (31 \<le> n \<and> n \<le> 60 \<longrightarrow> tier_of (Fin (of_int n)) = lit ''Medium'')
   \<and> (61 \<le> n \<longrightarrow> tier_of (Fin (of_int n)) = lit ''High'')
   \<and> tier_of (Fin 30) = lit ''Low'' \<and> tier_of (Fin 31) = lit ''Medium''
   \<and> tier_of (Fin 60) = lit ''Medium'' \<and> tier_of (Fin 61) = lit ''High''"
proof -
  have low: "n \<le> 30 \<longrightarrow> tier_of (Fin (of_int n)) = lit ''Low''"
    by (simp add: tier_of_def)
  have "31 \<le> n \<Longrightarrow> \<not> (real_of_int n \<le> 30)"
    by linarith
  then have medium: "31 \<le> n \<and> n \<le> 60 \<longrightarrow> tier_of (Fin (of_int n)) = lit ''Medium''"
    by (simp add: tier_of_def)
  have "61 \<le> n \<Longrightarrow> \<not> (real_of_int n \<le> 30) \<and> \<not> (real_of_int n \<le> 60)"
    by linarith
  then have high: "61 \<le> n \<longrightarrow> tier_of (Fin (of_int n)) = lit ''High''"
    by (simp add: tier_of_def)
  have "tier_of (Fin 30) = lit ''Low'' \<and> tier_of (Fin 31) = lit ''Medium''
      \<and> tier_of (Fin 60) = lit ''Medium'' \<and> tier_of (Fin 61) = lit ''High''"
    by (simp add: tier_of_def)
  with low medium high show ?thesis by blast
qed

theorem C2_tier_thresholds_witness:
  "tier_of (Fin 17) = lit ''Low'' \<and> tier_of (Fin 45) = lit ''Medium''
   \<and> tier_of (Fin 88) = lit ''High''"
  using C2_tier_thresholds [of 17] C2_tier_thresholds [of 45] C2_tier_thresholds [of 88]
  by simp

text \<open>A score that is no number is in neither of the two lower tiers.\<close>

lemma tier_of_NaN: "tier_of NaN = lit ''High''"
  by (simp add: tier_of_def)

section \<open>The factors\<close>

text \<open>
  C4. The notice-period factor is the first-match-wins step function of the notice days:
  from 90 on it is 80, else from 60 on 70, else from 30 on 50, else from 15 on 30, else
  from 7 on 20, else 10; a missing value counts as 30 days (and gives 50). In particular
  89 gives 70, 90 gives 80 and 0 gives 10.
\<close>

theorem C4_notice_risk_steps:
  "(noticePeriodDays p = None \<longrightarrow> notice_days p = 30 \<and> noticeRisk_of p = 50)
   \<and> (\<forall>d. noticePeriodDays p = Some d \<longrightarrow>
        notice_days p = d
        \<and> (90 \<le> d \<longrightarrow> noticeRisk_of p = 80)
        \<and> (60 \<le> d \<and> d < 90 \<longrightarrow> noticeRisk_of p = 70)
        \<and> (30 \<le> d \<and> d < 60 \<longrightarrow> noticeRisk_of p = 50)
        \<and> (15 \<le> d \<and> d < 30 \<longrightarrow> noticeRisk_of p = 30)
        \<and> (7 \<le> d \<and> d < 15 \<longrightarrow> noticeRisk_of p = 20)
        \<and> (d < 7 \<longrightarrow> noticeRisk_of p = 10))"
  by (simp add: noticeRisk_of_def notice_days_def)

theorem C4_notice_risk_steps_witness:
  "noticeRisk_of (sample_payload\<lparr>noticePeriodDays := Some 89\<rparr>) = 70
   \<and> noticeRisk_of (sample_payload\<lparr>noticePeriodDays := Some 90\<rparr>) = 80
   \<and> noticeRisk_of (sample_payload\<lparr>noticePeriodDays := Some 0\<rparr>) = 10
   \<and> noticeRisk_of (sample_payload\<lparr>noticePeriodDays := Some 20\<rparr>) = 30
   \<and> noticeRisk_of (sample_payload\<lparr>noticePeriodDays := None\<rparr>) = 50"
  using C4_notice_risk_steps [of "sample_payload\<lparr>noticePeriodDays := Some 89\<rparr>"]
    C4_notice_risk_steps [of "sample_payload\<lparr>noticePeriodDays := Some 90\<rparr>"]
    C4_notice_risk_steps [of "sample_payload\<lparr>noticePeriodDays := Some 0\<rparr>"]
    C4_notice_risk_steps [of "sample_payload\<lparr>noticePeriodDays := Some 20\<rparr>"]
    C4_notice_risk_steps [of "sample_payload\<lparr>noticePeriodDays := None\<rparr>"]
  by simp

text \<open>
  C3, as the specification states it: the network factor is the lookup of the network
  size in the table with the keys \<^verbatim>\<open><500\<close> and \<^verbatim>\<open>>5,000\<close>. The source's table spells these
  two keys with a space, so the specification's own key \<^verbatim>\<open><500\<close> is not in it and gets
  the default 60 where the specification says 70.
\<close>

theorem C3_spec_keys_counterexample:
  "networkRisk_of (sample_payload\<lparr>linkedinNetworkSize := lit ''<500''\<rparr>) = 60
   \<and> spec_networkRisk (lit ''<500'') = 70
   \<and> networkRisk_of (sample_payload\<lparr>linkedinNetworkSize := lit ''>5,000''\<rparr>) = 60
   \<and> spec_networkRisk (lit ''>5,000'') = 10"
  by (simp add: networkRisk_of_def networkMap_def spec_networkRisk_def spec_networkMap_def
      lit_def en_dash_def)

text \<open>
  C3, amended. For every profile whose network size is not a name inherited from
  \<^verbatim>\<open>Object.prototype\<close>, the network factor is the lookup of the network size in the
  table of the source: \<^verbatim>\<open>< 500\<close> gives 70, \<^verbatim>\<open>500-1,000\<close> gives 50, \<^verbatim>\<open>1,001-5,000\<close> gives 30
  (both ranges with an en dash), \<^verbatim>\<open>> 5,000\<close> gives 10, and every other string gives the
  default 60.
\<close>

theorem C3_network_risk_table:
  assumes "linkedinNetworkSize p \<notin> set Object_prototype_names"
  shows "(linkedinNetworkSize p = lit ''< 500'' \<longrightarrow> networkRisk_of p = 70)
   \<and> (linkedinNetworkSize p = lit ''500'' @ [en_dash] @ lit ''1,000'' \<longrightarrow> networkRisk_of p = 50)
   \<and> (linkedinNetworkSize p = lit ''1,001'' @ [en_dash] @ lit ''5,000'' \<longrightarrow> networkRisk_of p = 30)
   \<and> (linkedinNetworkSize p = lit ''> 5,000'' \<longrightarrow> networkRisk_of p = 10)
   \<and> (linkedinNetworkSize p \<notin> fst ` set networkMap \<longrightarrow> networkRisk_of p = 60)"
proof -
  have "linkedinNetworkSize p \<notin> fst ` set networkMap
      \<Longrightarrow> map_of networkMap (linkedinNetworkSize p) = None"
    by (simp add: map_of_eq_None_iff)
  then have "linkedinNetworkSize p \<notin> fst ` set networkMap \<longrightarrow> networkRisk_of p = 60"
    by (simp add: networkRisk_of_def)
  moreover have "linkedinNetworkSize p = lit ''< 500'' \<longrightarrow> networkRisk_of p = 70"
    by (simp add: networkRisk_of_def networkMap_def)
  moreover have "linkedinNetworkSize p = lit ''500'' @ [en_dash] @ lit ''1,000''
      \<longrightarrow> networkRisk_of p = 50"
    by (simp add: networkRisk_of_def networkMap_def lit_def en_dash_def)
  moreover have "linkedinNetworkSize p = lit ''1,001'' @ [en_dash] @ lit ''5,000''
      \<longrightarrow> networkRisk_of p = 30"
    by (simp add: networkRisk_of_def networkMap_def lit_def en_dash_def)
  moreover have "linkedinNetworkSize p = lit ''> 5,000'' \<longrightarrow> networkRisk_of p = 10"
    by (simp add: networkRisk_of_def networkMap_def lit_def en_dash_def)
  ultimately show ?thesis by blast
qed

theorem C3_network_risk_table_witness:
  "networkRisk_of sample_payload = 10
   \<and> networkRisk_of (sample_payload\<lparr>linkedinNetworkSize := lit ''< 500''\<rparr>) = 70
   \<and> networkRisk_of
       (sample_payload\<lparr>linkedinNetworkSize := lit ''500'' @ [en_dash] @ lit ''1,000''\<rparr>) = 50
   \<and> networkRisk_of
       (sample_payload\<lparr>linkedinNetworkSize := lit ''1,001'' @ [en_dash] @ lit ''5,000''\<rparr>) = 30
   \<and> networkRisk_of (sample_payload\<lparr>linkedinNetworkSize := lit ''unknown''\<rparr>) = 60"
proof -
  have a: "linkedinNetworkSize sample_payload \<notin> set Object_prototype_names"
    by (simp add: sample_payload_def Object_prototype_names_def lit_def)
  have e: "linkedinNetworkSize sample_payload = lit ''> 5,000''"
    by (simp add: sample_payload_def)
  have c: "lit ''< 500'' \<notin> set Object_prototype_names"
    "lit ''500'' @ [en_dash] @ lit ''1,000'' \<notin> set Object_prototype_names"
    "lit ''1,001'' @ [en_dash] @ lit ''5,000'' \<notin> set Object_prototype_names"
    "lit ''unknown'' \<notin> set Object_prototype_names"
    by (simp_all add: Object_prototype_names_def lit_def en_dash_def)
  have d: "lit ''unknown'' \<notin> fst ` set networkMap"
    by (simp add: networkMap_def lit_def en_dash_def)
  have w0: "networkRisk_of sample_payload = 10"
    using C3_network_risk_table [OF a] e by simp
  have w1: "networkRisk_of (sample_payload\<lparr>linkedinNetworkSize := lit ''< 500''\<rparr>) = 70"
    using C3_network_risk_table [of "sample_payload\<lparr>linkedinNetworkSize := lit ''< 500''\<rparr>"]
      c(1)
    by simp
  have w2: "networkRisk_of
      (sample_payload\<lparr>linkedinNetworkSize := lit ''500'' @ [en_dash] @ lit ''1,000''\<rparr>) = 50"
    using C3_network_risk_table
        [of "sample_payload\<lparr>linkedinNetworkSize := lit ''500'' @ [en_dash] @ lit ''1,000''\<rparr>"]
      c(2)
    by simp
  have w3: "networkRisk_of
      (sample_payload\<lparr>linkedinNetworkSize := lit ''1,001'' @ [en_dash] @ lit ''5,000''\<rparr>) = 30"
    using C3_network_risk_table
        [of "sample_payload\<lparr>linkedinNetworkSize := lit ''1,001'' @ [en_dash] @ lit ''5,000''\<rparr>"]
      c(3)
    by simp
  have w4: "networkRisk_of (sample_payload\<lparr>linkedinNetworkSize := lit ''unknown''\<rparr>) = 60"
    using C3_network_risk_table [of "sample_payload\<lparr>linkedinNetworkSize := lit ''unknown''\<rparr>"]
      c(4) d
    by simp
  from w0 w1 w2 w3 w4 show ?thesis by simp
qed

text \<open>The scaled factor of an input in \<open>[0,5]\<close>: each of the three rounded steps stays in
  its range.\<close>

lemma scaled_in_range:
  assumes "0 \<le> v" and "v \<le> 5"
  shows "\<exists>r. fsub (Fin 100) (fmul (fdiv (Fin v) (Fin 5)) (Fin 100)) = Fin r \<and> 0 \<le> r \<and> r \<le> 100"
proof -
  have "0 \<le> v / 5" and "v / 5 \<le> real_of_int 1"
    using assms by simp_all
  then obtain a where a: "fl (v / 5) = Fin a" "0 \<le> a" "a \<le> real_of_int 1"
    using fl_range [of "v / 5" 1] by auto
  have "0 \<le> a * 100" and "a * 100 \<le> real_of_int 100"
    using a(2,3) by simp_all
  then obtain b where b: "fl (a * 100) = Fin b" "0 \<le> b" "b \<le> real_of_int 100"
    using fl_range [of "a * 100" 100] by auto
  have "0 \<le> 100 - b" and "100 - b \<le> real_of_int 100"
    using b(2,3) by simp_all
  then obtain c where c: "fl (100 - b) = Fin c" "0 \<le> c" "c \<le> real_of_int 100"
    using fl_range [of "100 - b" 100] by auto
  have "fsub (Fin 100) (fmul (fdiv (Fin v) (Fin 5)) (Fin 100)) = Fin c"
    using a(1) b(1) c(1) by (simp add: fsub_def)
  with c(2,3) show ?thesis by simp
qed

lemma clamp_0_5: "0 \<le> v \<Longrightarrow> v \<le> 5 \<Longrightarrow> clamp (Fin v) (Fin 0) (Fin 5) = Fin v"
  by (simp add: clamp_def Math_max_def Math_min_def)

text \<open>The scaled factor is a number or an infinity for every input.\<close>

lemma fl_not_NaN: "fl x \<noteq> NaN"
  by (simp add: fl_def Let_def)

lemma scaled_not_NaN: "fsub (Fin 100) (fmul (fdiv (Fin v) (Fin 5)) (Fin 100)) \<noteq> NaN"
proof (cases "fl (v / 5)")
  case (Fin a)
  then show ?thesis
    by (cases "fl (a * 100)") (simp_all add: fsub_def fl_not_NaN)
next
  case PInf
  then show ?thesis by (simp add: fsub_def signed_inf_def)
next
  case NInf
  then show ?thesis by (simp add: fsub_def signed_inf_def)
next
  case NaN
  then show ?thesis by (simp add: fl_not_NaN)
qed

text \<open>
  C5, as the specification states it: the skill and performance inputs are clamped to
  \<open>[0,5]\<close> before scaling, so both factors lie in \<open>[0,100]\<close>. The source scales the input as
  it is: a proficiency of 6 gives a skill factor of -20 where the clamped formula gives 0,
  and a rating of -1 gives a performance factor of 120 where the clamped formula gives
  100.
\<close>

theorem C5_no_clamp_counterexample:
  "skillsRisk_of (sample_payload\<lparr>skillProficiencyAvg := 6\<rparr>) = Fin (- 20)
   \<and> spec_scaled_risk 6 = Fin 0
   \<and> performanceRisk_of (sample_payload\<lparr>performanceRating := - 1\<rparr>) = Fin 120
   \<and> spec_scaled_risk (- 1) = Fin 100"
proof -
  have "skillsRisk_of (sample_payload\<lparr>skillProficiencyAvg := 6\<rparr>)
      = fsub (Fin 100) (fmul (fdiv (Fin 6) (Fin 5)) (Fin 100))"
    by (simp add: skillsRisk_of_def)
  then have a: "skillsRisk_of (sample_payload\<lparr>skillProficiencyAvg := 6\<rparr>) = Fin (- 20)"
    by (simp only: binary64_steps)
  have "performanceRisk_of (sample_payload\<lparr>performanceRating := - 1\<rparr>)
      = fsub (Fin 100) (fmul (fdiv (Fin (- 1)) (Fin 5)) (Fin 100))"
    by (simp add: performanceRisk_of_def)
  then have b: "performanceRisk_of (sample_payload\<lparr>performanceRating := - 1\<rparr>) = Fin 120"
    by (simp only: binary64_steps)
  have "clamp (Fin 6) (Fin 0) (Fin 5) = Fin 5" and "clamp (Fin (- 1)) (Fin 0) (Fin 5) = Fin 0"
    by (simp_all add: clamp_def Math_max_def Math_min_def)
  then have "spec_scaled_risk 6 = fsub (Fin 100) (fmul (fdiv (Fin 5) (Fin 5)) (Fin 100))"
    and "spec_scaled_risk (- 1) = fsub (Fin 100) (fmul (fdiv (Fin 0) (Fin 5)) (Fin 100))"
    by (simp_all add: spec_scaled_risk_def)
  then have c: "spec_scaled_risk 6 = Fin 0" and d: "spec_scaled_risk (- 1) = Fin 100"
    by (simp_all only: binary64_steps)
  from a c b d show ?thesis by simp
qed

text \<open>
  C5, amended. The factor calculator is defined on every proficiency and rating and does
  not clamp them: for every input value the skill factor is \<open>100 - (proficiency / 5) * 100\<close>
  and the performance factor is \<open>100 - (rating / 5) * 100\<close>, computed in binary64, and
  each is a number or an infinity. For an input in \<open>[0,5]\<close> the factor equals the clamped
  formula of the specification and lies in \<open>[0,100]\<close>.
\<close>

theorem C5_scaled_risk_unclamped:
  "skillsRisk_of p = fsub (Fin 100) (fmul (fdiv (Fin (skillProficiencyAvg p)) (Fin 5)) (Fin 100))
   \<and> performanceRisk_of p
       = fsub (Fin 100) (fmul (fdiv (Fin (performanceRating p)) (Fin 5)) (Fin 100))
   \<and> skillsRisk_of p \<noteq> NaN \<and> performanceRisk_of p \<noteq> NaN
   \<and> (0 \<le> skillProficiencyAvg p \<and> skillProficiencyAvg p \<le> 5
        \<longrightarrow> skillsRisk_of p = spec_scaled_risk (skillProficiencyAvg p)
            \<and> (\<exists>r. skillsRisk_of p = Fin r \<and> 0 \<le> r \<and> r \<le> 100))
   \<and> (0 \<le> performanceRating p \<and> performanceRating p \<le> 5
        \<longrightarrow> performanceRisk_of p = spec_scaled_risk (performanceRating p)
            \<and> (\<exists>r. performanceRisk_of p = Fin r \<and> 0 \<le> r \<and> r \<le> 100))"
proof -
  have skill: "0 \<le> skillProficiencyAvg p \<and> skillProficiencyAvg p \<le> 5
      \<longrightarrow> skillsRisk_of p = spec_scaled_risk (skillProficiencyAvg p)
          \<and> (\<exists>r. skillsRisk_of p = Fin r \<and> 0 \<le> r \<and> r \<le> 100)"
    using scaled_in_range [of "skillProficiencyAvg p"]
    by (simp add: skillsRisk_of_def spec_scaled_risk_def clamp_0_5)
  have perf: "0 \<le> performanceRating p \<and> performanceRating p \<le> 5
      \<longrightarrow> performanceRisk_of p = spec_scaled_risk (performanceRating p)
          \<and> (\<exists>r. performanceRisk_of p = Fin r \<and> 0 \<le> r \<and> r \<le> 100)"
    using scaled_in_range [of "performanceRating p"]
    by (simp add: performanceRisk_of_def spec_scaled_risk_def clamp_0_5)
  have "skillsRisk_of p \<noteq> NaN" and "performanceRisk_of p \<noteq> NaN"
    unfolding skillsRisk_of_def performanceRisk_of_def by (rule scaled_not_NaN)+
  moreover have "skillsRisk_of p
      = fsub (Fin 100) (fmul (fdiv (Fin (skillProficiencyAvg p)) (Fin 5)) (Fin 100))"
    by (rule skillsRisk_of_def)
  moreover have "performanceRisk_of p
      = fsub (Fin 100) (fmul (fdiv (Fin (performanceRating p)) (Fin 5)) (Fin 100))"
    by (rule performanceRisk_of_def)
  ultimately show ?thesis
    using skill perf by blast
qed

theorem C5_scaled_risk_unclamped_witness:
  "skillsRisk_of (sample_payload\<lparr>skillProficiencyAvg := 4\<rparr>) = Fin 20
   \<and> spec_scaled_risk 4 = Fin 20
   \<and> performanceRisk_of (sample_payload\<lparr>performanceRating := 3\<rparr>) = Fin 40
   \<and> spec_scaled_risk 3 = Fin 40"
proof -
  let ?p = "sample_payload\<lparr>skillProficiencyAvg := 4\<rparr>"
  let ?q = "sample_payload\<lparr>performanceRating := 3\<rparr>"
  have v: "skillProficiencyAvg ?p = 4" "performanceRating ?q = 3"
    by simp_all
  have "0 \<le> skillProficiencyAvg ?p \<and> skillProficiencyAvg ?p \<le> 5"
    by simp
  with C5_scaled_risk_unclamped [of ?p]
  have "skillsRisk_of ?p
      = fsub (Fin 100) (fmul (fdiv (Fin (skillProficiencyAvg ?p)) (Fin 5)) (Fin 100))"
    and "skillsRisk_of ?p = spec_scaled_risk (skillProficiencyAvg ?p)"
    by blast+
  then have "skillsRisk_of ?p = fsub (Fin 100) (fmul (fdiv (Fin 4) (Fin 5)) (Fin 100))"
    and "skillsRisk_of ?p = spec_scaled_risk 4"
    by (simp_all only: v)
  then have a: "skillsRisk_of ?p = Fin 20" and b: "spec_scaled_risk 4 = Fin 20"
    by (simp_all only: binary64_steps)
  have "0 \<le> performanceRating ?q \<and> performanceRating ?q \<le> 5"
    by simp
  with C5_scaled_risk_unclamped [of ?q]
  have "performanceRisk_of ?q
      = fsub (Fin 100) (fmul (fdiv (Fin (performanceRating ?q)) (Fin 5)) (Fin 100))"
    and "performanceRisk_of ?q = spec_scaled_risk (performanceRating ?q)"
    by blast+
  then have "performanceRisk_of ?q = fsub (Fin 100) (fmul (fdiv (Fin 3) (Fin 5)) (Fin 100))"
    and "performanceRisk_of ?q = spec_scaled_risk 3"
    by (simp_all only: v)
  then have c: "performanceRisk_of ?q = Fin 40" and d: "spec_scaled_risk 3 = Fin 40"
    by (simp_all only: binary64_steps)
  from a b c d show ?thesis by simp
qed

text \<open>
  Two more inputs outside \<open>[0,5]\<close>. A negative proficiency of magnitude \<open>2 powi (- 60)\<close> gives
  exactly 100: the factor lies in \<open>[0,100]\<close> although the input does not lie in \<open>[0,5]\<close>. A
  proficiency of 6.125 gives -22.500000000000014, which the explanation prints rounded
  as -23.
\<close>

lemma scaled_outside_samples:
  "skillsRisk_of (sample_payload\<lparr>skillProficiencyAvg := - (1 / 2 ^ 60)\<rparr>) = Fin 100"
  "skillsRisk_of (sample_payload\<lparr>skillProficiencyAvg := 49 / 8\<rparr>)
     = Fin (- (1583296743997441 / 70368744177664))"
  "Math_round (skillsRisk_of (sample_payload\<lparr>skillProficiencyAvg := 49 / 8\<rparr>)) = Fin (- 23)"
proof -
  have "skillsRisk_of (sample_payload\<lparr>skillProficiencyAvg := - (1 / 2 ^ 60)\<rparr>)
      = fsub (Fin 100) (fmul (fdiv (Fin (- (1 / 1152921504606846976))) (Fin 5)) (Fin 100))"
    by (simp add: skillsRisk_of_def)
  then show "skillsRisk_of (sample_payload\<lparr>skillProficiencyAvg := - (1 / 2 ^ 60)\<rparr>) = Fin 100"
    by (simp only: binary64_steps)
  have "skillsRisk_of (sample_payload\<lparr>skillProficiencyAvg := 49 / 8\<rparr>)
      = fsub (Fin 100) (fmul (fdiv (Fin (49 / 8)) (Fin 5)) (Fin 100))"
    by (simp add: skillsRisk_of_def)
  then show s: "skillsRisk_of (sample_payload\<lparr>skillProficiencyAvg := 49 / 8\<rparr>)
     = Fin (- (1583296743997441 / 70368744177664))"
    by (simp only: binary64_steps)
  show "Math_round (skillsRisk_of (sample_payload\<lparr>skillProficiencyAvg := 49 / 8\<rparr>)) = Fin (- 23)"
    unfolding s by simp
qed

section \<open>Properties of the narrative client\<close>

lemma narrate_Throws:
  "narrate h Throws = (\<lparr> llmNarrative = JNull, llmRecommendations = JArr [] \<rparr>, [Log_deepseek_error])"
  by (simp add: narrate_def)

lemma narrate_Returns: "narrate h (Returns resp) = (parse_reply h (rawText_of resp), [])"
  by (simp add: narrate_def)

lemma parse_reply_no_json: "JSON_parse h t = None \<Longrightarrow> parse_reply h t = fallback t"
  by (simp add: parse_reply_def)

lemma split_on_nonempty: "split_on d xs \<noteq> []"
  by (induction xs) (auto split: list.splits)

lemma nullish_or_not_null: "d \<noteq> JNull \<Longrightarrow> nullish_or v d \<noteq> JNull"
  by (auto simp add: nullish_or_def split: option.splits json.splits)

text \<open>The recommendations are never \<^verbatim>\<open>null\<close>, so reading their \<^verbatim>\<open>length\<close> does not throw.\<close>

lemma recommendations_never_null: "llmRecommendations (fst (narrate h outcome)) \<noteq> JNull"
proof (cases outcome)
  case Throws
  then show ?thesis by (simp add: narrate_def)
next
  case (Returns resp)
  have "llmRecommendations (parse_reply h t) \<noteq> JNull" for t
    by (simp add: parse_reply_def fallback_def nullish_or_not_null split: option.splits)
  with Returns show ?thesis by (simp add: narrate_def)
qed

lemma length_fallback_recommendations: "length (fallback_recommendations t) \<le> 5"
proof -
  have "length (fallback_recommendations t) \<le> length (map trim (take 5 (split_on newline t)))"
    unfolding fallback_recommendations_def by (rule length_filter_le)
  also have "\<dots> \<le> 5" by simp
  finally show ?thesis .
qed

lemma take_filter_all:
  "\<forall>x \<in> set (take n xs). P x \<Longrightarrow> take n (filter P xs) = filter P (take n xs)"
proof (induction xs arbitrary: n)
  case Nil
  then show ?case by simp
next
  case (Cons x xs)
  show ?case
  proof (cases n)
    case 0
    then show ?thesis by simp
  next
    case (Suc m)
    with Cons.prems have "P x" and "\<forall>y \<in> set (take m xs). P y" by simp_all
    with Cons.IH [of m] Suc show ?thesis by simp
  qed
qed

lemma take_filter_short:
  assumes "length xs \<le> n"
  shows "take n (filter P xs) = filter P (take n xs)"
proof -
  have "length (filter P xs) \<le> n"
    using assms length_filter_le [of P xs] by linarith
  with assms show ?thesis by simp
qed

lemma spec_first_five_agrees:
  assumes "length (split_on newline t) \<le> 5
           \<or> (\<forall>l \<in> set (take 5 (split_on newline t)). trim l \<noteq> [])"
  shows "fallback_recommendations t = spec_first_five t"
proof -
  let ?ls = "map trim (split_on newline t)"
  have "take 5 (filter (\<lambda>s. s \<noteq> []) ?ls) = filter (\<lambda>s. s \<noteq> []) (take 5 ?ls)"
  proof (rule disjE [OF assms])
    assume "length (split_on newline t) \<le> 5"
    then show ?thesis by (simp add: take_filter_short)
  next
    assume "\<forall>l \<in> set (take 5 (split_on newline t)). trim l \<noteq> []"
    then have "\<forall>s \<in> set (take 5 ?ls). s \<noteq> []" by (simp add: take_map)
    then show ?thesis by (rule take_filter_all)
  qed
  then show ?thesis
    by (simp add: fallback_recommendations_def spec_first_five_def take_map)
qed

lemma blank_first_lines:
  "split_on newline blank_first_text =
     [ [], lit ''Learn SQL'', lit ''Find a mentor'', lit ''Ask for feedback'',
       lit ''Grow your network'', lit ''Update your CV'' ]"
  by (simp add: blank_first_text_def lit_def newline_def)

lemma trim_samples:
  "trim [] = []"
  "trim (lit ''Learn SQL'') = lit ''Learn SQL''"
  "trim (lit ''Find a mentor'') = lit ''Find a mentor''"
  "trim (lit ''Ask for feedback'') = lit ''Ask for feedback''"
  "trim (lit ''Grow your network'') = lit ''Grow your network''"
  "trim (lit ''Update your CV'') = lit ''Update your CV''"
  by (simp_all add: trim_def lit_def is_white_space_def)

lemma lit_samples_nonempty:
  "lit ''Learn SQL'' \<noteq> []" "lit ''Find a mentor'' \<noteq> []" "lit ''Ask for feedback'' \<noteq> []"
  "lit ''Grow your network'' \<noteq> []" "lit ''Update your CV'' \<noteq> []"
  by (simp_all add: lit_def)

lemma blank_first_fallback:
  "fallback_recommendations blank_first_text =
     [lit ''Learn SQL'', lit ''Find a mentor'', lit ''Ask for feedback'', lit ''Grow your network'']"
  by (simp add: fallback_recommendations_def blank_first_lines trim_samples lit_samples_nonempty)

lemma blank_first_spec:
  "spec_first_five blank_first_text =
     [lit ''Learn SQL'', lit ''Find a mentor'', lit ''Ask for feedback'', lit ''Grow your network'',
      lit ''Update your CV'']"
  by (simp add: spec_first_five_def blank_first_lines trim_samples lit_samples_nonempty)

lemma blank_first_no_json: "JSON_parse sample_host blank_first_text = None"
  by (simp add: sample_host_def blank_first_text_def six_text_def lit_def)

text \<open>
  C7, as the specification states it: when the raw text fails to parse as JSON, the
  recommendations are the first 5 non-empty trimmed lines of the raw text. The source
  cuts the text to its first five lines before it trims them and drops the empty ones: of
  a text with a blank first line and five lines after it, it keeps four recommendations,
  where the first 5 non-empty trimmed lines are five.
\<close>

theorem C7_blank_line_counterexample:
  "JSON_parse sample_host blank_first_text = None
   \<and> llmRecommendations (fst (narrate sample_host (reply blank_first_text)))
       = JArr (map JStr [lit ''Learn SQL'', lit ''Find a mentor'', lit ''Ask for feedback'',
                         lit ''Grow your network''])
   \<and> spec_first_five blank_first_text
       = [lit ''Learn SQL'', lit ''Find a mentor'', lit ''Ask for feedback'',
          lit ''Grow your network'', lit ''Update your CV'']"
proof -
  have "rawText_of \<lparr> resp_text = Some blank_first_text, resp_choices = None \<rparr> = blank_first_text"
    by (simp add: rawText_of_def)
  then have "fst (narrate sample_host (reply blank_first_text)) = fallback blank_first_text"
    by (simp add: reply_def narrate_Returns parse_reply_no_json blank_first_no_json)
  then show ?thesis
    by (simp add: fallback_def blank_first_fallback blank_first_spec blank_first_no_json)
qed

text \<open>
  C7, amended. For every service response whose raw text fails to parse as JSON, the
  narrative is the entire raw text, and the recommendations are the non-empty trimmed
  lines among the first 5 lines of the raw text, in their order. They are the first 5
  non-empty trimmed lines of the text whenever the text has at most 5 lines or none of
  its first 5 lines is blank.
\<close>

theorem C7_fallback_on_parse_failure:
  assumes "JSON_parse h (rawText_of resp) = None"
  shows "llmNarrative (fst (narrate h (Returns resp))) = JStr (rawText_of resp)
   \<and> llmRecommendations (fst (narrate h (Returns resp)))
       = JArr (map JStr
           (filter (\<lambda>s. s \<noteq> []) (map trim (take 5 (split_on newline (rawText_of resp))))))
   \<and> (length (split_on newline (rawText_of resp)) \<le> 5
        \<or> (\<forall>l \<in> set (take 5 (split_on newline (rawText_of resp))). trim l \<noteq> [])
       \<longrightarrow> llmRecommendations (fst (narrate h (Returns resp)))
            = JArr (map JStr (spec_first_five (rawText_of resp))))"
proof -
  have n: "fst (narrate h (Returns resp)) = fallback (rawText_of resp)"
    using assms by (simp add: narrate_Returns parse_reply_no_json)
  have "llmRecommendations (fallback (rawText_of resp))
      = JArr (map JStr (fallback_recommendations (rawText_of resp)))"
    by (simp add: fallback_def)
  then show ?thesis
    unfolding n using spec_first_five_agrees [of "rawText_of resp"]
    by (auto simp add: fallback_def fallback_recommendations_def)
qed

theorem C7_fallback_on_parse_failure_witness:
  "llmNarrative (fst (narrate sample_host (reply blank_first_text))) = JStr blank_first_text
   \<and> llmRecommendations (fst (narrate sample_host (reply blank_first_text)))
       = JArr (map JStr
           (filter (\<lambda>s. s \<noteq> []) (map trim (take 5 (split_on newline blank_first_text)))))"
proof -
  have r: "rawText_of \<lparr> resp_text = Some blank_first_text, resp_choices = None \<rparr>
      = blank_first_text"
    by (simp add: rawText_of_def)
  show ?thesis
    using C7_fallback_on_parse_failure
      [of sample_host "\<lparr> resp_text = Some blank_first_text, resp_choices = None \<rparr>"]
      blank_first_no_json
    unfolding r reply_def by simp
qed

lemma six_parses: "JSON_parse sample_host six_text = Some six_json"
  by (simp add: sample_host_def)

lemma recommendations_bounded_off_the_json_path:
  "llmRecommendations (fst (narrate h Throws)) = JArr []"
  "JSON_parse h (rawText_of resp) = None \<Longrightarrow>
     \<exists>rs. llmRecommendations (fst (narrate h (Returns resp))) = JArr (map JStr rs)
          \<and> length rs \<le> 5"
proof -
  show "llmRecommendations (fst (narrate h Throws)) = JArr []"
    by (simp add: narrate_Throws)
next
  assume "JSON_parse h (rawText_of resp) = None"
  then have "llmRecommendations (fst (narrate h (Returns resp)))
      = JArr (map JStr (fallback_recommendations (rawText_of resp)))"
    by (simp add: narrate_Returns parse_reply_no_json fallback_def)
  with length_fallback_recommendations [of "rawText_of resp"]
  show "\<exists>rs. llmRecommendations (fst (narrate h (Returns resp))) = JArr (map JStr rs)
          \<and> length rs \<le> 5"
    by blast
qed

lemma six_narrative:
  "fst (narrate sample_host (reply six_text)) =
     \<lparr> llmNarrative = JStr (lit ''x''),
       llmRecommendations =
         JArr [JStr (lit ''a''), JStr (lit ''b''), JStr (lit ''c''),
               JStr (lit ''d''), JStr (lit ''e''), JStr (lit ''f'')] \<rparr>"
proof -
  have "rawText_of \<lparr> resp_text = Some six_text, resp_choices = None \<rparr> = six_text"
    by (simp add: rawText_of_def)
  then have "fst (narrate sample_host (reply six_text)) = parse_reply sample_host six_text"
    by (simp add: reply_def narrate_Returns)
  moreover have "lit ''narrative'' \<noteq> lit ''recommendations''"
    by (simp add: lit_def)
  ultimately show ?thesis
    by (simp add: parse_reply_def six_parses six_json_def nullish_or_def)
qed

text \<open>
  C8. The specification bounds the recommendation list of the narrative result by 5 for
  every outcome of the service. On a reply that parses as JSON the handler keeps
  \<^verbatim>\<open>parsed.recommendations\<close> as it is: a reply with six recommendations gives a list of six.
  (A failed call gives the empty list and a reply that is no JSON at most five lines, by
  \<open>recommendations_bounded_off_the_json_path\<close>.)
\<close>

theorem C8_json_reply_keeps_six_recommendations:
  "JSON_parse sample_host six_text = Some six_json
   \<and> llmRecommendations (fst (narrate sample_host (reply six_text)))
       = JArr [JStr (lit ''a''), JStr (lit ''b''), JStr (lit ''c''),
               JStr (lit ''d''), JStr (lit ''e''), JStr (lit ''f'')]
   \<and> llmNarrative (fst (narrate sample_host (reply six_text))) = JStr (lit ''x'')"
  by (simp add: six_parses six_narrative)

section \<open>Properties of the handler\<close>

text \<open>The response of the scoring steps, by cases on what the inserts return.\<close>

lemma score_request_response:
  "fst (score_request h e wdata user_opt p) =
     (case user_opt of
        None \<Rightarrow> thrown
      | Some u \<Rightarrow>
          (case ins_error (profiles_insert e) of
             Some msg \<Rightarrow> error_response 500 msg
           | None \<Rightarrow>
               (case ins_data (profiles_insert e) of
                  None \<Rightarrow> thrown
                | Some row \<Rightarrow>
                    \<lparr> status = 200,
                      body = Success_body
                        \<lparr> res_score =
                            score_of (compute_factors p) (read_weights h (resolve_weights wdata)),
                          res_tier =
                            tier_of
                              (score_of (compute_factors p) (read_weights h (resolve_weights wdata))),
                          res_explainability = explainability_of h p (compute_factors p),
                          res_recommendations =
                            recommendations_of (fst (narrate h (deepseekGenerate e))),
                          res_profileId = row_id row \<rparr> \<rparr>)))"
  by (simp add: score_request_def Let_def split: prod.splits option.splits)

text \<open>The handler's result is that of the scoring steps when the request reaches them.\<close>

lemma handler_response_reached:
  assumes "reaches_insert e req"
  shows "\<exists>u wdata. weights_select e = Query_resolves wdata
            \<and> handler h e req = score_request h e wdata (Some u) (req_body req)"
  using assms
  by (auto simp add: handler_def reaches_insert_def split: option.splits weights_outcome.splits)

text \<open>A request with a token and a user found by \<^verbatim>\<open>userData?.user\<close> is answered with status
  500 when \<^verbatim>\<open>userData\<close> has no member \<^verbatim>\<open>data\<close>: reading \<^verbatim>\<open>userData.data.user\<close> throws.\<close>

lemma handler_throws_without_data:
  assumes "req_method req = lit ''POST''" and "token_of req \<noteq> []"
    and "auth_getUser e = \<lparr> gu_data = Some \<lparr> ud_user = Some u, ud_data = None \<rparr>, gu_error = None \<rparr>"
  shows "handler h e req = (\<lparr> status = 500, body = Exception_body \<rparr>, [Log_exception])"
  using assms by (simp add: handler_def thrown_def)

lemma success_body_fields:
  assumes "body (fst (handler h e req)) = Success_body r"
  shows "Some (res_score r)
       = map_option (score_of (compute_factors (req_body req))) (used_weights h e)
   \<and> res_tier r = tier_of (res_score r)
   \<and> res_explainability r = explainability_of h (req_body req) (compute_factors (req_body req))
   \<and> res_recommendations r = recommendations_of (fst (narrate h (deepseekGenerate e)))"
  using assms
  by (auto simp add: handler_def score_request_response error_response_def thrown_def
      used_weights_def split: if_splits option.splits weights_outcome.splits)

lemma explainability_of_host:
  "ToString h1 = ToString h2 \<Longrightarrow> explainability_of h1 p d = explainability_of h2 p d"
  by (simp add: explainability_of_def)

text \<open>A network size that names an inherited member makes the network operand, the sum
  and the score \<^verbatim>\<open>NaN\<close>, whatever the weights.\<close>

lemma network_factor_cases:
  "\<not> inherits_member p \<Longrightarrow> networkRisk (compute_factors p) = Fin (networkRisk_of p)"
  "inherits_member p \<Longrightarrow> networkRisk (compute_factors p) = NaN"
  by (simp_all add: compute_factors_def)

lemma inherited_member_score:
  assumes "inherits_member p"
  shows "score_of (compute_factors p) w = NaN"
proof -
  have "raw_score (compute_factors p) w = NaN"
    by (simp add: raw_score_def network_factor_cases(2) [OF assms])
  then show ?thesis by (rule score_of_cases(4))
qed

subsection \<open>The weights\<close>

lemma resolve_weights_cases:
  "resolve_weights None = DEFAULT_WEIGHTS"
  "resolve_weights (Some \<lparr> row_weights = None \<rparr>) = DEFAULT_WEIGHTS"
  "resolve_weights (Some \<lparr> row_weights = Some JNull \<rparr>) = DEFAULT_WEIGHTS"
  "v \<noteq> JNull \<Longrightarrow> resolve_weights (Some \<lparr> row_weights = Some v \<rparr>) = v"
  by (simp_all add: resolve_weights_def nullish_or_def split: json.splits)

lemma default_weights_not_null: "DEFAULT_WEIGHTS \<noteq> JNull"
  by (simp add: DEFAULT_WEIGHTS_def)

lemma score_request_weights_only_through_resolve:
  assumes "resolve_weights w1 = resolve_weights w2"
  shows "score_request h e w1 u p = score_request h e w2 u p"
  using assms by (simp add: score_request_def)

lemma score_request_env_weights:
  "score_request h (e\<lparr>weights_select := q\<rparr>) w u p = score_request h e w u p"
  by (auto simp add: score_request_def Let_def split: prod.splits option.splits)

lemma handler_weights_only_through_resolve:
  assumes "resolve_weights w1 = resolve_weights w2"
  shows "handler h (e\<lparr>weights_select := Query_resolves w1\<rparr>) req
       = handler h (e\<lparr>weights_select := Query_resolves w2\<rparr>) req"
  using score_request_weights_only_through_resolve [OF assms]
  by (simp add: handler_def score_request_env_weights split: option.splits)

text \<open>A weight query that rejects leaves the handler through its outer \<^verbatim>\<open>catch\<close>.\<close>

lemma handler_weights_query_rejects:
  assumes "reaches_weights e req"
  shows "handler h (e\<lparr>weights_select := Query_rejects\<rparr>) req
       = (\<lparr> status = 500, body = Exception_body \<rparr>, [Log_exception])"
  using assms
  by (auto simp add: handler_def reaches_weights_def thrown_def split: option.splits)

lemma sample_reaches_weights: "reaches_weights sample_env sample_request"
  by (simp add: reaches_weights_def sample_env_def sample_request_def token_of_def lit_def)

lemma sample_reaches_insert: "reaches_insert sample_env sample_request"
  by (simp add: reaches_insert_def sample_env_def sample_request_def token_of_def lit_def)

lemma reaches_insert_env:
  "auth_getUser e' = auth_getUser e \<Longrightarrow> weights_select e' = weights_select e
     \<Longrightarrow> reaches_insert e' req = reaches_insert e req"
  by (simp add: reaches_insert_def)

text \<open>The stored vector that lacks members: five of the six operands are \<^verbatim>\<open>undefined\<close>, and
  the sum is \<^verbatim>\<open>NaN\<close>.\<close>

lemma malformed_operands:
  "read_weights h malformed_weights =
     \<lparr> skills = Fin 1, performance = NaN, network = NaN, mobility = NaN, notice = NaN,
       plateau = NaN \<rparr>"
  by (simp add: read_weights_def malformed_weights_def to_number_def lit_def)

lemma malformed_score:
  "score_of (compute_factors p) (read_weights h malformed_weights) = NaN"
proof -
  have "raw_score (compute_factors p) (read_weights h malformed_weights) = NaN"
    by (simp add: raw_score_def malformed_operands)
  then show ?thesis by (rule score_of_cases(4))
qed

lemma sample_explainability:
  "explainability_of sample_host sample_payload (compute_factors sample_payload) =
     [ \<lparr> entry_factor = lit ''Skills relevance'', entry_value = Number_value (Fin 0),
         entry_text = lit ''Skill-related risk is 0.'' \<rparr>,
       \<lparr> entry_factor = lit ''Performance'', entry_value = Number_value (Fin 0),
         entry_text = lit ''Performance risk 0.'' \<rparr>,
       \<lparr> entry_factor = lit ''Network'', entry_value = Number_value (Fin 10),
         entry_text = lit ''Network risk 10.'' \<rparr>,
       \<lparr> entry_factor = lit ''Mobility'', entry_value = Number_value (Fin 10),
         entry_text = lit ''Mobility lowers risk.'' \<rparr>,
       \<lparr> entry_factor = lit ''Notice period'', entry_value = Number_value (Fin 10),
         entry_text = lit ''Notice period risk 10.'' \<rparr>,
       \<lparr> entry_factor = lit ''Experience plateau'', entry_value = Number_value (Fin 20),
         entry_text = lit ''Balanced tenure.'' \<rparr> ]"
proof -
  have "willingToRelocate sample_payload = lit ''Yes''"
    by (simp add: sample_payload_def)
  then show ?thesis
    by (simp add: explainability_of_def sample_factors network_value_def samples_inherit_nothing
        sample_host_def decimal_def lit_def)
qed

lemma sample_handler_with_weights:
  "handler sample_host (sample_env\<lparr>weights_select := Query_resolves wdata\<rparr>) sample_request
     = (\<lparr> status = 200,
          body = Success_body
            \<lparr> res_score =
                score_of (compute_factors sample_payload)
                  (read_weights sample_host (resolve_weights wdata)),
              res_tier =
                tier_of (score_of (compute_factors sample_payload)
                  (read_weights sample_host (resolve_weights wdata))),
              res_explainability =
                explainability_of sample_host sample_payload (compute_factors sample_payload),
              res_recommendations = JArr [JStr (lit ''See dashboard for recommended actions.'')],
              res_profileId = lit ''profile-1'' \<rparr> \<rparr>,
        [Log_deepseek_error])"
proof -
  have t: "token_of sample_request \<noteq> []" and m: "req_method sample_request = lit ''POST''"
    and b: "req_body sample_request = sample_payload"
    by (simp_all add: sample_request_def token_of_def lit_def)
  have "handler sample_host (sample_env\<lparr>weights_select := Query_resolves wdata\<rparr>) sample_request
      = score_request sample_host (sample_env\<lparr>weights_select := Query_resolves wdata\<rparr>) wdata
          (Some sample_user) sample_payload"
    using t m b by (simp add: handler_def sample_env_def)
  also have "\<dots> = score_request sample_host sample_env wdata (Some sample_user) sample_payload"
    by (rule score_request_env_weights)
  also have "\<dots> = (\<lparr> status = 200,
          body = Success_body
            \<lparr> res_score =
                score_of (compute_factors sample_payload)
                  (read_weights sample_host (resolve_weights wdata)),
              res_tier =
                tier_of (score_of (compute_factors sample_payload)
                  (read_weights sample_host (resolve_weights wdata))),
              res_explainability =
                explainability_of sample_host sample_payload (compute_factors sample_payload),
              res_recommendations = JArr [JStr (lit ''See dashboard for recommended actions.'')],
              res_profileId = lit ''profile-1'' \<rparr> \<rparr>,
        [Log_deepseek_error])"
    by (simp add: score_request_def Let_def sample_env_def narrate_Throws wants_llm_record_def
        recommendations_of_def)
  finally show ?thesis .
qed

text \<open>
  C6, as the specification states it: whenever the storage query yields no usable vector,
  also when the stored one is malformed, the resolved vector is the built-in default and
  the request proceeds normally. The source keeps every stored value that is not
  \<^verbatim>\<open>null\<close>, unvalidated: for a stored vector with the member \<^verbatim>\<open>skills\<close> only, the resolved
  vector is that vector, five operands of the weighted sum are \<^verbatim>\<open>undefined\<close>, and the
  response, with status 200, carries the score \<^verbatim>\<open>NaN\<close> and the tier High, where the
  default vector gives the score 6 and the tier Low.
\<close>

theorem C6_malformed_vector_counterexample:
  "resolve_weights (Some \<lparr> row_weights = Some malformed_weights \<rparr>) = malformed_weights
   \<and> malformed_weights \<noteq> DEFAULT_WEIGHTS
   \<and> read_weights sample_host malformed_weights \<noteq> read_weights sample_host DEFAULT_WEIGHTS
   \<and> fst (handler sample_host
        (sample_env\<lparr>weights_select := Query_resolves (Some \<lparr> row_weights = Some malformed_weights \<rparr>)\<rparr>)
        sample_request)
     = \<lparr> status = 200,
         body = Success_body
           \<lparr> res_score = NaN, res_tier = lit ''High'',
             res_explainability =
               explainability_of sample_host sample_payload (compute_factors sample_payload),
             res_recommendations = JArr [JStr (lit ''See dashboard for recommended actions.'')],
             res_profileId = lit ''profile-1'' \<rparr> \<rparr>
   \<and> fst (handler sample_host (sample_env\<lparr>weights_select := Query_resolves None\<rparr>) sample_request)
     = \<lparr> status = 200,
         body = Success_body
           \<lparr> res_score = Fin 6, res_tier = lit ''Low'',
             res_explainability =
               explainability_of sample_host sample_payload (compute_factors sample_payload),
             res_recommendations = JArr [JStr (lit ''See dashboard for recommended actions.'')],
             res_profileId = lit ''profile-1'' \<rparr> \<rparr>"
proof -
  have n: "malformed_weights \<noteq> JNull"
    by (simp add: malformed_weights_def)
  have r: "resolve_weights (Some \<lparr> row_weights = Some malformed_weights \<rparr>) = malformed_weights"
    using n by (rule resolve_weights_cases(4))
  have d: "malformed_weights \<noteq> DEFAULT_WEIGHTS"
    by (simp add: malformed_weights_def DEFAULT_WEIGHTS_def)
  have o: "read_weights sample_host malformed_weights \<noteq> read_weights sample_host DEFAULT_WEIGHTS"
    by (simp add: malformed_operands default_weights_values)
  have "tier_of (Fin 6) = lit ''Low''"
    by (simp add: tier_of_def)
  then show ?thesis
    using r d o
    by (simp add: sample_handler_with_weights malformed_score tier_of_NaN
        resolve_weights_cases(1) sample_score)
qed

text \<open>
  C6, amended. When the storage query resolves to no row, to a row without a weight
  vector or to a row whose vector is \<^verbatim>\<open>null\<close>, the resolved vector is the built-in default
  (skills 0.28, performance 0.22, network 0.18, mobility 0.12, notice 0.12, plateau 0.08,
  each the binary64 value of its literal), and the handler answers and logs exactly as it
  does when the default vector is the stored one. Every other stored value is the resolved
  vector as it is. A query that rejects is caught by the handler's outer catch alone: a
  request that has reached the query is then answered with status 500.
\<close>

theorem C6_weights_default_when_absent:
  "resolve_weights None = DEFAULT_WEIGHTS
   \<and> resolve_weights (Some \<lparr> row_weights = None \<rparr>) = DEFAULT_WEIGHTS
   \<and> resolve_weights (Some \<lparr> row_weights = Some JNull \<rparr>) = DEFAULT_WEIGHTS
   \<and> (v \<noteq> JNull \<longrightarrow> resolve_weights (Some \<lparr> row_weights = Some v \<rparr>) = v)
   \<and> read_weights h DEFAULT_WEIGHTS =
       \<lparr> skills = fl 0.28, performance = fl 0.22, network = fl 0.18,
         mobility = fl 0.12, notice = fl 0.12, plateau = fl 0.08 \<rparr>
   \<and> handler h (e\<lparr>weights_select := Query_resolves None\<rparr>) req
       = handler h (e\<lparr>weights_select :=
           Query_resolves (Some \<lparr> row_weights = Some DEFAULT_WEIGHTS \<rparr>)\<rparr>) req
   \<and> handler h (e\<lparr>weights_select := Query_resolves (Some \<lparr> row_weights = None \<rparr>)\<rparr>) req
       = handler h (e\<lparr>weights_select :=
           Query_resolves (Some \<lparr> row_weights = Some DEFAULT_WEIGHTS \<rparr>)\<rparr>) req
   \<and> handler h (e\<lparr>weights_select := Query_resolves (Some \<lparr> row_weights = Some JNull \<rparr>)\<rparr>) req
       = handler h (e\<lparr>weights_select :=
           Query_resolves (Some \<lparr> row_weights = Some DEFAULT_WEIGHTS \<rparr>)\<rparr>) req
   \<and> (reaches_weights e req
        \<longrightarrow> handler h (e\<lparr>weights_select := Query_rejects\<rparr>) req
            = (\<lparr> status = 500, body = Exception_body \<rparr>, [Log_exception]))"
proof -
  note c = resolve_weights_cases(4) [OF default_weights_not_null]
  have a: "handler h (e\<lparr>weights_select := Query_resolves None\<rparr>) req
       = handler h (e\<lparr>weights_select :=
           Query_resolves (Some \<lparr> row_weights = Some DEFAULT_WEIGHTS \<rparr>)\<rparr>) req"
    by (rule handler_weights_only_through_resolve) (simp only: resolve_weights_cases(1) c)
  have b: "handler h (e\<lparr>weights_select := Query_resolves (Some \<lparr> row_weights = None \<rparr>)\<rparr>) req
       = handler h (e\<lparr>weights_select :=
           Query_resolves (Some \<lparr> row_weights = Some DEFAULT_WEIGHTS \<rparr>)\<rparr>) req"
    by (rule handler_weights_only_through_resolve) (simp only: resolve_weights_cases(2) c)
  have d: "handler h (e\<lparr>weights_select := Query_resolves (Some \<lparr> row_weights = Some JNull \<rparr>)\<rparr>) req
       = handler h (e\<lparr>weights_select :=
           Query_resolves (Some \<lparr> row_weights = Some DEFAULT_WEIGHTS \<rparr>)\<rparr>) req"
    by (rule handler_weights_only_through_resolve) (simp only: resolve_weights_cases(3) c)
  show ?thesis
    using a b d resolve_weights_cases(1,2,3) resolve_weights_cases(4) [of v]
      default_weights_members [of h] handler_weights_query_rejects [of e req h]
    by blast
qed

theorem C6_weights_default_when_absent_witness:
  "malformed_weights \<noteq> JNull
   \<and> resolve_weights (Some \<lparr> row_weights = Some malformed_weights \<rparr>) = malformed_weights
   \<and> reaches_weights sample_env sample_request
   \<and> handler sample_host (sample_env\<lparr>weights_select := Query_rejects\<rparr>) sample_request
       = (\<lparr> status = 500, body = Exception_body \<rparr>, [Log_exception])"
proof -
  have n: "malformed_weights \<noteq> JNull"
    by (simp add: malformed_weights_def)
  note c6 = C6_weights_default_when_absent [of malformed_weights sample_host sample_env
      sample_request]
  from c6 n have "resolve_weights (Some \<lparr> row_weights = Some malformed_weights \<rparr>)
      = malformed_weights"
    by blast
  moreover from c6 sample_reaches_weights
  have "handler sample_host (sample_env\<lparr>weights_select := Query_rejects\<rparr>) sample_request
       = (\<lparr> status = 500, body = Exception_body \<rparr>, [Log_exception])"
    by blast
  ultimately show ?thesis
    using n sample_reaches_weights by blast
qed

subsection \<open>The two writes\<close>

lemma score_request_log:
  "snd (score_request h e wdata (Some u) p) =
     snd (narrate h (deepseekGenerate e)) @
     (case ins_error (profiles_insert e) of
        Some msg \<Rightarrow> [Log_insert_error msg]
      | None \<Rightarrow>
          (if wants_llm_record (fst (narrate h (deepseekGenerate e)))
              \<and> llm_outputs_insert e = Insert_rejects
           then [Log_llm_store_failed] else []) @
          (case ins_data (profiles_insert e) of None \<Rightarrow> [Log_exception] | Some row \<Rightarrow> []))"
  by (simp add: score_request_def Let_def split: prod.splits option.splits)

lemma narrate_log_no_store_failure: "Log_llm_store_failed \<notin> set (snd (narrate h outcome))"
  by (cases outcome) (simp_all add: narrate_def)

lemma handler_response_any_llm_insert:
  "fst (handler h (e\<lparr>llm_outputs_insert := a\<rparr>) req)
     = fst (handler h (e\<lparr>llm_outputs_insert := b\<rparr>) req)"
  by (simp add: handler_def score_request_response split: option.splits weights_outcome.splits)

text \<open>
  C9. The two writes fail differently. When a request reaches the insert into the
  profile table and that insert returns an error, the caller gets status 500 with the
  error's message, although the score has been computed, and the error is logged. A
  rejected insert of the LLM audit record changes nothing in the response: the response
  is the same whether that insert resolves or rejects, and on a successful request whose
  narrative calls for the record the rejection is logged.
\<close>

theorem C9_persistence_failures_asymmetric:
  "(reaches_insert e req \<and> ins_error (profiles_insert e) = Some msg
      \<longrightarrow> fst (handler h e req) = \<lparr> status = 500, body = Error_body msg \<rparr>
          \<and> Log_insert_error msg \<in> set (snd (handler h e req)))
   \<and> fst (handler h (e\<lparr>llm_outputs_insert := Insert_rejects\<rparr>) req)
       = fst (handler h (e\<lparr>llm_outputs_insert := Insert_resolves\<rparr>) req)
   \<and> (reaches_insert e req \<and> ins_error (profiles_insert e) = None
        \<and> wants_llm_record (fst (narrate h (deepseekGenerate e)))
        \<and> llm_outputs_insert e = Insert_rejects
      \<longrightarrow> Log_llm_store_failed \<in> set (snd (handler h e req)))
   \<and> Log_llm_store_failed
       \<notin> set (snd (handler h (e\<lparr>llm_outputs_insert := Insert_resolves\<rparr>) req))"
proof -
  have primary: "reaches_insert e req \<and> ins_error (profiles_insert e) = Some msg
      \<longrightarrow> fst (handler h e req) = \<lparr> status = 500, body = Error_body msg \<rparr>
          \<and> Log_insert_error msg \<in> set (snd (handler h e req))"
  proof
    assume r: "reaches_insert e req \<and> ins_error (profiles_insert e) = Some msg"
    then obtain u wdata where
      "handler h e req = score_request h e wdata (Some u) (req_body req)"
      using handler_response_reached [of e req h] by blast
    with r show "fst (handler h e req) = \<lparr> status = 500, body = Error_body msg \<rparr>
          \<and> Log_insert_error msg \<in> set (snd (handler h e req))"
      by (simp add: score_request_response score_request_log error_response_def)
  qed
  have logged: "reaches_insert e req \<and> ins_error (profiles_insert e) = None
        \<and> wants_llm_record (fst (narrate h (deepseekGenerate e)))
        \<and> llm_outputs_insert e = Insert_rejects
      \<longrightarrow> Log_llm_store_failed \<in> set (snd (handler h e req))"
  proof
    assume r: "reaches_insert e req \<and> ins_error (profiles_insert e) = None
        \<and> wants_llm_record (fst (narrate h (deepseekGenerate e)))
        \<and> llm_outputs_insert e = Insert_rejects"
    then obtain u wdata where
      "handler h e req = score_request h e wdata (Some u) (req_body req)"
      using handler_response_reached [of e req h] by blast
    with r show "Log_llm_store_failed \<in> set (snd (handler h e req))"
      by (simp add: score_request_log)
  qed
  have quiet: "Log_llm_store_failed
       \<notin> set (snd (handler h (e\<lparr>llm_outputs_insert := Insert_resolves\<rparr>) req))"
    using narrate_log_no_store_failure [of h "deepseekGenerate e"]
    by (auto simp add: handler_def score_request_def Let_def
        split: option.splits prod.splits if_splits weights_outcome.splits)
  from primary logged quiet
    handler_response_any_llm_insert
  show ?thesis by blast
qed

theorem C9_persistence_failures_asymmetric_witness:
  "fst (handler sample_host
         (sample_env\<lparr>profiles_insert := \<lparr> ins_data = None, ins_error = Some (lit ''insert failed'') \<rparr>\<rparr>)
         sample_request)
     = \<lparr> status = 500, body = Error_body (lit ''insert failed'') \<rparr>
   \<and> Log_llm_store_failed
       \<in> set (snd (handler sample_host
                    (sample_env\<lparr>deepseekGenerate := reply six_text,
                                 llm_outputs_insert := Insert_rejects\<rparr>)
                    sample_request))"
proof -
  let ?e1 = "sample_env\<lparr>profiles_insert :=
      \<lparr> ins_data = None, ins_error = Some (lit ''insert failed'') \<rparr>\<rparr>"
  let ?e2 = "sample_env\<lparr>deepseekGenerate := reply six_text,
      llm_outputs_insert := Insert_rejects\<rparr>"
  have r1: "reaches_insert ?e1 sample_request"
    using sample_reaches_insert reaches_insert_env [of ?e1 sample_env sample_request] by simp
  have r2: "reaches_insert ?e2 sample_request"
    using sample_reaches_insert reaches_insert_env [of ?e2 sample_env sample_request] by simp
  have i1: "ins_error (profiles_insert ?e1) = Some (lit ''insert failed'')"
    by simp
  have i2: "ins_error (profiles_insert ?e2) = None"
    by (simp add: sample_env_def)
  have "lit ''x'' \<noteq> []"
    by (simp add: lit_def)
  then have w: "wants_llm_record (fst (narrate sample_host (deepseekGenerate ?e2)))"
    by (simp add: wants_llm_record_def six_narrative)
  have l: "llm_outputs_insert ?e2 = Insert_rejects"
    by simp
  have a: "fst (handler sample_host ?e1 sample_request)
      = \<lparr> status = 500, body = Error_body (lit ''insert failed'') \<rparr>"
    using C9_persistence_failures_asymmetric
        [of ?e1 sample_request "lit ''insert failed''" sample_host] r1 i1
    by blast
  have b: "Log_llm_store_failed \<in> set (snd (handler sample_host ?e2 sample_request))"
    using C9_persistence_failures_asymmetric [of ?e2 sample_request _ sample_host] r2 i2 w l
    by blast
  from a b show ?thesis by (rule conjI)
qed

subsection \<open>The scoring fields and the narrative\<close>

text \<open>
  C10. The score, the tier and the six-entry explainability list of a successful
  response are functions of the profile and the resolved weight vector alone: two
  executions with the same profile and the same resolved weights that both answer with a
  result carry the same three fields, whatever the generation service returned or threw
  in either, whatever \<^verbatim>\<open>JSON.parse\<close> made of it, and whatever else differs between the two
  (the narrative reaches the response only through the recommendations).
\<close>

theorem C10_scoring_fields_ignore_narrative:
  assumes "req_body req1 = req_body req2"
    and "used_weights h1 e1 = used_weights h2 e2"
    and "ToString h1 = ToString h2"
    and "body (fst (handler h1 e1 req1)) = Success_body r1"
    and "body (fst (handler h2 e2 req2)) = Success_body r2"
  shows "res_score r1 = res_score r2 \<and> res_tier r1 = res_tier r2
   \<and> res_explainability r1 = res_explainability r2
   \<and> length (res_explainability r1) = 6
   \<and> Some (res_score r1)
       = map_option (score_of (compute_factors (req_body req1))) (used_weights h1 e1)
   \<and> res_tier r1 = tier_of (res_score r1)
   \<and> res_explainability r1
       = explainability_of h1 (req_body req1) (compute_factors (req_body req1))"
proof -
  note f1 = success_body_fields [OF assms(4)]
  note f2 = success_body_fields [OF assms(5)]
  from f1 have a1: "Some (res_score r1)
      = map_option (score_of (compute_factors (req_body req1))) (used_weights h1 e1)"
    and t1: "res_tier r1 = tier_of (res_score r1)"
    and x1: "res_explainability r1
      = explainability_of h1 (req_body req1) (compute_factors (req_body req1))"
    by blast+
  from f2 have a2: "Some (res_score r2)
      = map_option (score_of (compute_factors (req_body req2))) (used_weights h2 e2)"
    and t2: "res_tier r2 = tier_of (res_score r2)"
    and x2: "res_explainability r2
      = explainability_of h2 (req_body req2) (compute_factors (req_body req2))"
    by blast+
  have "Some (res_score r1) = Some (res_score r2)"
    unfolding a1 a2 assms(1) assms(2) by (rule refl)
  then have s: "res_score r1 = res_score r2"
    by simp
  have t: "res_tier r1 = res_tier r2"
    unfolding t1 t2 s by (rule refl)
  have x: "res_explainability r1 = res_explainability r2"
    unfolding x1 x2 assms(1) by (rule explainability_of_host [OF assms(3)])
  have l: "length (res_explainability r1) = 6"
    unfolding x1 by (simp add: explainability_of_def)
  from s t x l a1 t1 x1 show ?thesis
    by blast
qed

lemma sample_success:
  assumes "auth_getUser e = auth_getUser sample_env"
    and "weights_select e = weights_select sample_env"
    and "profiles_insert e = profiles_insert sample_env"
  shows "\<exists>r. body (fst (handler h e sample_request)) = Success_body r"
proof -
  have "reaches_insert e sample_request"
    using sample_reaches_insert reaches_insert_env [OF assms(1) assms(2), of sample_request]
    by simp
  then obtain u wdata where
    "handler h e sample_request = score_request h e wdata (Some u) (req_body sample_request)"
    using handler_response_reached [of e sample_request h] by blast
  moreover have "ins_error (profiles_insert e) = None"
    and "ins_data (profiles_insert e) = Some \<lparr> row_id = lit ''profile-1'' \<rparr>"
    using assms(3) by (simp_all add: sample_env_def)
  ultimately show ?thesis
    by (simp add: score_request_response)
qed

theorem C10_scoring_fields_ignore_narrative_witness:
  "\<exists>r1 r2.
      body (fst (handler sample_host sample_env sample_request)) = Success_body r1
    \<and> body (fst (handler sample_host (sample_env\<lparr>deepseekGenerate := reply six_text\<rparr>)
                 sample_request)) = Success_body r2
    \<and> res_recommendations r1 \<noteq> res_recommendations r2
    \<and> res_score r1 = Fin 6 \<and> res_score r2 = Fin 6
    \<and> res_tier r1 = lit ''Low'' \<and> res_tier r2 = lit ''Low''
    \<and> res_explainability r1 = res_explainability r2"
proof -
  let ?e2 = "sample_env\<lparr>deepseekGenerate := reply six_text\<rparr>"
  obtain r1 where b1: "body (fst (handler sample_host sample_env sample_request)) = Success_body r1"
    using sample_success [of sample_env sample_host] by auto
  obtain r2 where b2: "body (fst (handler sample_host ?e2 sample_request)) = Success_body r2"
    using sample_success [of ?e2 sample_host] by auto
  have w: "used_weights sample_host sample_env = used_weights sample_host ?e2"
    by (simp add: used_weights_def)
  note same = C10_scoring_fields_ignore_narrative [OF refl w refl b1 b2]
  have dw: "used_weights sample_host sample_env = Some (read_weights sample_host DEFAULT_WEIGHTS)"
    by (simp add: used_weights_def sample_env_def resolve_weights_cases(1))
  have body: "req_body sample_request = sample_payload"
    by (simp add: sample_request_def)
  from same have e1: "res_score r1 = res_score r2"
    and e2: "res_tier r1 = res_tier r2"
    and e3: "res_explainability r1 = res_explainability r2"
    and e4: "Some (res_score r1)
      = map_option (score_of (compute_factors (req_body sample_request)))
          (used_weights sample_host sample_env)"
    and e5: "res_tier r1 = tier_of (res_score r1)"
    by blast+
  have s1: "res_score r1 = Fin 6"
    using e4 unfolding dw body by (simp add: sample_score)
  have t1: "res_tier r1 = lit ''Low''"
    unfolding e5 s1 by (simp add: tier_of_def)
  have s2: "res_score r2 = Fin 6"
    using e1 s1 by simp
  have t2: "res_tier r2 = lit ''Low''"
    using e2 t1 by simp
  have "recommendations_of (fst (narrate sample_host (deepseekGenerate sample_env)))
      = JArr [JStr (lit ''See dashboard for recommended actions.'')]"
    by (simp add: sample_env_def narrate_Throws recommendations_of_def)
  moreover have "recommendations_of (fst (narrate sample_host (deepseekGenerate ?e2)))
      = JArr [JStr (lit ''a''), JStr (lit ''b''), JStr (lit ''c''),
              JStr (lit ''d''), JStr (lit ''e''), JStr (lit ''f'')]"
    by (simp add: six_narrative recommendations_of_def)
  ultimately have "res_recommendations r1 \<noteq> res_recommendations r2"
    using success_body_fields [OF b1] success_body_fields [OF b2] by simp
  with b1 b2 s1 s2 t1 t2 e3 show ?thesis
    by blast
qed

end
